theory Spec2Isabelle
  imports Complex_Main
begin

section \<open>JavaScript values\<close>

text \<open>
  The pipeline of \<^verbatim>\<open>server/index.js\<close> works on the objects that \<^verbatim>\<open>JSON.parse\<close> returns
  for the text of an inference response. A value is a JSON value or \<^verbatim>\<open>undefined\<close> (what
  reading a missing property gives). An object is its list of own properties in insertion
  order. An array carries its elements and, second, the named (non-index) properties that
  an assignment such as \<^verbatim>\<open>arr.email = v\<close> adds to it; \<^verbatim>\<open>JSON.parse\<close> returns arrays
  with no such property. Numbers are the rationals (every finite double is one); only
  their truthiness is ever used.

  Strings are lists of 8-bit characters, read as JavaScript strings whose UTF-16 code
  units are all below 256 (ASCII and Latin-1), so that \<open>length\<close> is \<^verbatim>\<open>.length\<close>.
\<close>

datatype json =
    JUndefined
  | JNull
  | JBool bool
  | JNum rat
  | JStr string
  | JArr "json list" "(string \<times> json) list"
  | JObj "(string \<times> json) list"

type_synonym fields = "(string \<times> json) list"

text \<open>ToBoolean: \<^verbatim>\<open>undefined\<close>, \<^verbatim>\<open>null\<close>, \<^verbatim>\<open>false\<close>, \<^verbatim>\<open>0\<close> and \<^verbatim>\<open>''\<close> are falsy,
  every array and object is truthy.\<close>

fun truthy :: "json \<Rightarrow> bool" where
  "truthy JUndefined = False"
| "truthy JNull = False"
| "truthy (JBool b) = b"
| "truthy (JNum n) = (n \<noteq> 0)"
| "truthy (JStr s) = (s \<noteq> [])"
| "truthy (JArr xs ps) = True"
| "truthy (JObj fs) = True"

text \<open>\<^verbatim>\<open>a || b\<close>\<close>

definition js_or :: "json \<Rightarrow> json \<Rightarrow> json" where
  "js_or a b = (if truthy a then a else b)"

fun nullish :: "json \<Rightarrow> bool" where
  "nullish JUndefined = True"
| "nullish JNull = True"
| "nullish v = False"

text \<open>Objects and arrays hold properties; the other values are primitive.\<close>

fun isObject :: "json \<Rightarrow> bool" where
  "isObject (JObj fs) = True"
| "isObject (JArr xs ps) = True"
| "isObject v = False"

text \<open>\<^verbatim>\<open>obj.k\<close> on the property list of an object: a missing key reads as \<^verbatim>\<open>undefined\<close>.\<close>

definition lookup :: "fields \<Rightarrow> string \<Rightarrow> json" where
  "lookup fs k = (case map_of fs k of None \<Rightarrow> JUndefined | Some v \<Rightarrow> v)"

text \<open>
  \<^verbatim>\<open>v.k\<close> for a receiver \<open>v\<close> that is neither \<^verbatim>\<open>undefined\<close> nor \<^verbatim>\<open>null\<close> (those throw a
  TypeError, which the callers below check first). The keys the pipeline reads
  (\<^verbatim>\<open>degree\<close>, \<^verbatim>\<open>institution\<close>, \<^verbatim>\<open>year\<close>, \<^verbatim>\<open>achievements\<close>, \<^verbatim>\<open>email\<close>, ...) are no
  members of a prototype, so a string, number or boolean has none of them.
\<close>

fun readProp :: "json \<Rightarrow> string \<Rightarrow> json" where
  "readProp (JObj fs) k = lookup fs k"
| "readProp (JArr xs ps) k = lookup ps k"
| "readProp v k = JUndefined"

text \<open>\<^verbatim>\<open>obj.k = v\<close> on a property list: an existing key keeps its place, a new key is
  appended.\<close>

fun assign :: "string \<Rightarrow> json \<Rightarrow> fields \<Rightarrow> fields" where
  "assign k v [] = [(k, v)]"
| "assign k v ((k', v') # fs) = (if k' = k then (k, v) # fs else (k', v') # assign k v fs)"

datatype error =
    InsufficientDataError
  | ExtractionParseError
  | NameMissingError
  | TypeError
  | DatabaseError

text \<open>
  The source throws \<^verbatim>\<open>new Error(message)\<close> with three messages of its own; the
  constructors carry the names the specification gives them:
  \<^item> \<open>InsufficientDataError\<close>: 'Insufficient profile data. Please upload your CV or LinkedIn PDF.'
  \<^item> \<open>ExtractionParseError\<close>: 'Could not extract profile data. Please ensure your CV is readable.'
  \<^item> \<open>NameMissingError\<close>: 'Could not find your name in the uploaded documents. Please check your CV.'
  \<^item> \<open>TypeError\<close>: the engine's own exception for a property access on \<^verbatim>\<open>undefined\<close> or
    \<^verbatim>\<open>null\<close>, for a call of something that is no function, and for the conversion to a
    string of an object that has no usable \<^verbatim>\<open>toString\<close>.
  \<^item> \<open>DatabaseError\<close>: what a rejected \<^verbatim>\<open>pool.query\<close> throws.
\<close>

text \<open>
  \<^verbatim>\<open>target.k = v\<close> where \<open>target\<close> is any value. The file is a CommonJS module without
  \<^verbatim>\<open>'use strict'\<close>: assigning to a property of \<^verbatim>\<open>undefined\<close> or \<^verbatim>\<open>null\<close> throws a TypeError,
  assigning to a property of a string, number or boolean is silently dropped.
\<close>

fun setProp :: "json \<Rightarrow> string \<Rightarrow> json \<Rightarrow> error + json" where
  "setProp JUndefined k v = Inl TypeError"
| "setProp JNull k v = Inl TypeError"
| "setProp (JObj fs) k v = Inr (JObj (assign k v fs))"
| "setProp (JArr xs ps) k v = Inr (JArr xs (assign k v ps))"
| "setProp t k v = Inr t"

section \<open>Conversion to a string\<close>

text \<open>
  A template literal \<^verbatim>\<open>`${v}`\<close> and \<^verbatim>\<open>Array.prototype.join\<close> convert a value with ToString.
  For an object that is \<^verbatim>\<open>toString\<close> first, then \<^verbatim>\<open>valueOf\<close>. A parsed object inherits both
  from \<^verbatim>\<open>Object.prototype\<close> and converts to \<^verbatim>\<open>[object Object]\<close>, unless it has an own property
  \<^verbatim>\<open>toString\<close>: a JSON value is no function, the inherited \<^verbatim>\<open>valueOf\<close> returns the object
  itself, and the conversion throws a TypeError. An array converts by joining its
  elements with a comma, where \<^verbatim>\<open>undefined\<close> and \<^verbatim>\<open>null\<close> elements give the empty string and
  every other element is converted in turn; an own \<^verbatim>\<open>toString\<close> makes it throw as for an
  object, and an own \<^verbatim>\<open>join\<close> that is no function makes it convert to \<^verbatim>\<open>[object Array]\<close>.
\<close>

definition hasOwn :: "fields \<Rightarrow> string \<Rightarrow> bool" where
  "hasOwn fs k = (map_of fs k \<noteq> None)"

fun toStringThrows :: "json \<Rightarrow> bool" and joinThrows :: "json list \<Rightarrow> bool" where
  "toStringThrows (JObj fs) = hasOwn fs ''toString''"
| "toStringThrows (JArr xs ps) =
     (if hasOwn ps ''toString'' then True
      else if hasOwn ps ''join'' then False
      else joinThrows xs)"
| "toStringThrows JUndefined = False"
| "toStringThrows JNull = False"
| "toStringThrows (JBool b) = False"
| "toStringThrows (JNum n) = False"
| "toStringThrows (JStr s) = False"
| "joinThrows [] = False"
| "joinThrows (x # xs) = ((\<not> nullish x \<and> toStringThrows x) \<or> joinThrows xs)"

text \<open>
  Whether the string that a conversion or a join (with a separator that is not empty)
  returns is the empty string; read only where the conversion does not throw.
\<close>

fun toStringEmpty :: "json \<Rightarrow> bool" and joinEmpty :: "json list \<Rightarrow> bool" where
  "toStringEmpty (JStr s) = (s = [])"
| "toStringEmpty (JArr xs ps) =
     (if hasOwn ps ''toString'' \<or> hasOwn ps ''join'' then False else joinEmpty xs)"
| "toStringEmpty JUndefined = False"
| "toStringEmpty JNull = False"
| "toStringEmpty (JBool b) = False"
| "toStringEmpty (JNum n) = False"
| "toStringEmpty (JObj fs) = False"
| "joinEmpty [] = True"
| "joinEmpty [x] = (nullish x \<or> toStringEmpty x)"
| "joinEmpty (x # y # ys) = False"

text \<open>\<^verbatim>\<open>v?.length\<close>: the number of elements of an array, the number of code units of a string,
  the own property of an object, and \<^verbatim>\<open>undefined\<close> otherwise.\<close>

fun lengthProp :: "json \<Rightarrow> json" where
  "lengthProp (JArr xs ps) = JNum (of_nat (length xs))"
| "lengthProp (JStr s) = JNum (of_nat (length s))"
| "lengthProp (JObj fs) = lookup fs ''length''"
| "lengthProp v = JUndefined"

fun isArray :: "json \<Rightarrow> bool" where
  "isArray (JArr xs ps) = True"
| "isArray v = False"

fun isText :: "json \<Rightarrow> bool" where
  "isText (JStr s) = True"
| "isText v = False"

fun elements :: "json \<Rightarrow> json list" where
  "elements (JArr xs ps) = xs"
| "elements v = []"

section \<open>Strings\<close>

text \<open>\<^verbatim>\<open>String.prototype.toLowerCase\<close> on code units below 256: \<^verbatim>\<open>A\<close>--\<^verbatim>\<open>Z\<close> and the
  Latin-1 capitals U+00C0--U+00DE (without the multiplication sign U+00D7) move up
  by 32; every other code unit stays.\<close>

definition toLowerChar :: "char \<Rightarrow> char" where
  "toLowerChar c =
     (let n = (of_char c :: nat)
      in if (65 \<le> n \<and> n \<le> 90) \<or> (192 \<le> n \<and> n \<le> 222 \<and> n \<noteq> 215)
         then char_of (n + 32) else c)"

definition toLowerCase :: "string \<Rightarrow> string" where
  "toLowerCase s = map toLowerChar s"

text \<open>White space and line terminators below 256, as \<^verbatim>\<open>trim\<close> and the regular
  expression class \<^verbatim>\<open>\s\<close> read them: TAB, LF, VT, FF, CR, SPACE and NBSP.\<close>

definition isWhiteSpace :: "char \<Rightarrow> bool" where
  "isWhiteSpace c = ((of_char c :: nat) \<in> {9, 10, 11, 12, 13, 32, 160})"

definition trim :: "string \<Rightarrow> string" where
  "trim s = rev (dropWhile isWhiteSpace (rev (dropWhile isWhiteSpace s)))"

text \<open>\<^verbatim>\<open>s.startsWith(t)\<close> and \<^verbatim>\<open>s.includes(t)\<close>: \<open>t\<close> occurs in \<open>s\<close> as a contiguous
  substring.\<close>

fun startsWith :: "string \<Rightarrow> string \<Rightarrow> bool" where
  "startsWith s [] = True"
| "startsWith [] (d # t) = False"
| "startsWith (c # s) (d # t) = (c = d \<and> startsWith s t)"

fun str_includes :: "string \<Rightarrow> string \<Rightarrow> bool" where
  "str_includes [] t = (t = [])"
| "str_includes (c # s) t = (startsWith (c # s) t \<or> str_includes s t)"

text \<open>\<^verbatim>\<open>xs.join(sep)\<close> on an array of strings.\<close>

fun join :: "string \<Rightarrow> string list \<Rightarrow> string" where
  "join sep [] = []"
| "join sep [x] = x"
| "join sep (x # y # ys) = x @ sep @ join sep (y # ys)"

section \<open>RegionClassifier: \<^verbatim>\<open>detectRegion\<close>\<close>

text \<open>
  The fields of \<^verbatim>\<open>jobData\<close> that the server reads. \<open>None\<close> is a missing property
  (\<^verbatim>\<open>undefined\<close>); the whole of \<^verbatim>\<open>jobData\<close> may be missing as well (\<^verbatim>\<open>jobData?.rawText\<close>).
\<close>

record jobData =
  rawText :: "string option"
  title :: "string option"
  company :: "string option"
  location :: "string option"

datatype region = EU | UK | US | GLOBAL

definition euCountries :: "string list" where
  "euCountries = [''germany'', ''german'', ''berlin'', ''munich'', ''france'', ''french'', ''paris'',
    ''netherlands'', ''dutch'', ''amsterdam'', ''spain'', ''spanish'', ''barcelona'', ''madrid'',
    ''italy'', ''italian'', ''rome'', ''milan'', ''ireland'', ''irish'', ''dublin'',
    ''portugal'', ''lisbon'', ''belgium'', ''brussels'', ''austria'', ''vienna'',
    ''sweden'', ''stockholm'', ''denmark'', ''copenhagen'', ''finland'', ''helsinki'',
    ''poland'', ''warsaw'', ''czech'', ''prague'', ''eu '', ''european union'', ''europe'']"

definition ukTerms :: "string list" where
  "ukTerms = [''uk'', ''united kingdom'', ''britain'', ''british'', ''london'', ''manchester'',
    ''edinburgh'']"

definition usTerms :: "string list" where
  "usTerms = [''usa'', ''united states'', ''america'', ''new york'', ''san francisco'',
    ''los angeles'', ''seattle'', ''austin'', ''boston'', ''chicago'']"

text \<open>\<^verbatim>\<open>jobData?.f\<close> for a string property \<open>f\<close>.\<close>

definition optField :: "(jobData \<Rightarrow> string option) \<Rightarrow> jobData option \<Rightarrow> string option" where
  "optField f jd = (case jd of None \<Rightarrow> None | Some d \<Rightarrow> f d)"

text \<open>\<^verbatim>\<open>'' + v\<close> for a string or missing \<open>v\<close>: \<^verbatim>\<open>undefined\<close> becomes the text
  \<^verbatim>\<open>undefined\<close>.\<close>

definition concatEmpty :: "string option \<Rightarrow> string" where
  "concatEmpty v = (case v of None \<Rightarrow> ''undefined'' | Some s \<Rightarrow> s)"

text \<open>\<^verbatim>\<open>a || b\<close> where \<open>a\<close> is a string or missing and \<open>b\<close> is a string.\<close>

definition strOr :: "string option \<Rightarrow> string \<Rightarrow> string" where
  "strOr a b = (case a of None \<Rightarrow> b | Some s \<Rightarrow> if s = [] then b else s)"

text \<open>
  \<^verbatim>\<open>const text = (jobData?.rawText || '' + jobData?.location || '').toLowerCase();\<close>

  \<^verbatim>\<open>+\<close> binds tighter than \<^verbatim>\<open>||\<close>, so the expression is
  \<^verbatim>\<open>(rawText || ('' + location)) || ''\<close>.
\<close>

definition regionText :: "jobData option \<Rightarrow> string" where
  "regionText jd =
     toLowerCase (strOr (Some (strOr (optField rawText jd) (concatEmpty (optField location jd)))) [])"

definition detectRegion :: "jobData option \<Rightarrow> region" where
  "detectRegion jd =
     (let text = regionText jd
      in if list_ex (str_includes text) euCountries then EU
         else if list_ex (str_includes text) ukTerms then UK
         else if list_ex (str_includes text) usTerms then US
         else GLOBAL)"

section \<open>FactExtractor: the first stage of \<^verbatim>\<open>generateCVWithClaude\<close>\<close>

text \<open>
  The inputs of the pipeline, as the request body gives them: \<^verbatim>\<open>profile\<close> (which may be
  missing, as may its \<^verbatim>\<open>rawText\<close>) and \<^verbatim>\<open>cvTexts\<close>, a list of \<^verbatim>\<open>{filename, text}\<close>.
\<close>

record profile =
  profileRawText :: "string option"

record cvText =
  cv_filename :: string
  cv_text :: string

text \<open>
  The inference provider is outside the program. Each call of
  \<^verbatim>\<open>anthropic.messages.create\<close> is followed by
  \<^verbatim>\<open>JSON.parse(response.content[0].text.match(/\{[\s\S]*\}/)[0])\<close> inside a \<^verbatim>\<open>try\<close>. The text
  that the expression parses starts with a brace, so a successful parse returns an
  object; \<open>None\<close> stands for every way in which the \<^verbatim>\<open>try\<close> block throws (no brace pair
  in the text, or text that is no JSON). The four outcomes are inputs of the model, one
  for each call; the calls are assumed to return a response.
\<close>

record inference =
  extractionJson :: "fields option"
  jobAnalysisJson :: "fields option"
  tailoringJson :: "fields option"
  coverLetterJson :: "fields option"

definition LF :: char where
  "LF = CHR 0x0A"

text \<open>
  \<^verbatim>\<open>const allCvContent = cvTexts.map(cv => cv.text).join('\n\n---\n\n');\<close>
  \<^verbatim>\<open>const linkedinContent = profile?.rawText || '';\<close>
  \<^verbatim>\<open>const userProvidedData = `${linkedinContent}\n\n${allCvContent}`;\<close>
\<close>

definition userProvidedData :: "profile option \<Rightarrow> cvText list \<Rightarrow> string" where
  "userProvidedData prof cvTexts =
     (let allCvContent = join ([LF, LF] @ ''---'' @ [LF, LF]) (map cv_text cvTexts);
          linkedinContent = strOr (case prof of None \<Rightarrow> None | Some p \<Rightarrow> profileRawText p) []
      in linkedinContent @ [LF, LF] @ allCvContent)"

text \<open>\<^verbatim>\<open>!userProvidedData.trim() || userProvidedData.length < 100\<close>\<close>

definition insufficientData :: "string \<Rightarrow> bool" where
  "insufficientData d = (trim d = [] \<or> length d < 100)"

text \<open>
  The post-processing of \<^verbatim>\<open>extractedData.education\<close>: each entry is rebuilt as
  \<^verbatim>\<open>{degree, institution, year}\<close>, and entries without an institution are dropped. Reading
  a property of a \<^verbatim>\<open>null\<close> entry throws; \<^verbatim>\<open>.map\<close> on a truthy value that is no array
  throws as well.
\<close>

definition educationEntry :: "json \<Rightarrow> json" where
  "educationEntry edu =
     JObj [(''degree'', js_or (readProp edu ''degree'') (JStr [])),
           (''institution'', js_or (readProp edu ''institution'') (JStr [])),
           (''year'', (let y = readProp edu ''year''
                       in if truthy y \<and> y \<noteq> JStr ''null'' then y else JStr []))]"

fun cleanEducation :: "json list \<Rightarrow> error + json list" where
  "cleanEducation [] = Inr []"
| "cleanEducation (edu # rest) =
     (if nullish edu then Inl TypeError
      else case cleanEducation rest of
             Inl e \<Rightarrow> Inl e
           | Inr ys \<Rightarrow> Inr (educationEntry edu # ys))"

definition postProcessEducation :: "fields \<Rightarrow> error + fields" where
  "postProcessEducation extracted =
     (let education = lookup extracted ''education''
      in if truthy education
         then (case education of
                 JArr xs ps \<Rightarrow>
                   (case cleanEducation xs of
                      Inl e \<Rightarrow> Inl e
                    | Inr ys \<Rightarrow>
                        Inr (assign ''education''
                              (JArr (filter (\<lambda>edu. truthy (readProp edu ''institution'')) ys) [])
                              extracted))
               | _ \<Rightarrow> Inl TypeError)
         else Inr extracted)"

text \<open>\<^verbatim>\<open>!extractedData.name || extractedData.name === 'null'\<close>\<close>

definition nameMissing :: "fields \<Rightarrow> bool" where
  "nameMissing extracted =
     (\<not> truthy (lookup extracted ''name'') \<or> lookup extracted ''name'' = JStr ''null'')"

text \<open>
  Steps 1 and 2 of \<^verbatim>\<open>generateCVWithClaude\<close>: the length check, the extraction call,
  the post-processing and the validation of the name. The first component of the result
  counts the inference calls made so far.
\<close>

definition extractFacts :: "inference \<Rightarrow> profile option \<Rightarrow> cvText list \<Rightarrow> nat \<times> (error + fields)" where
  "extractFacts oc prof cvTexts =
     (if insufficientData (userProvidedData prof cvTexts) then (0, Inl InsufficientDataError)
      else case extractionJson oc of
             None \<Rightarrow> (1, Inl ExtractionParseError)
           | Some parsed \<Rightarrow>
               (case postProcessEducation parsed of
                  Inl e \<Rightarrow> (1, Inl e)
                | Inr extracted \<Rightarrow>
                    if nameMissing extracted then (1, Inl NameMissingError)
                    else (1, Inr extracted)))"

section \<open>JobRequirementAnalyzer\<close>

text \<open>
  \<^verbatim>\<open>try { jobRequirements = JSON.parse(...) }\<close>
  \<^verbatim>\<open>catch (e) { jobRequirements = { requiredSkills: [], preferredSkills: [], keywords: [] }; }\<close>
\<close>

definition fallbackJobRequirements :: fields where
  "fallbackJobRequirements =
     [(''requiredSkills'', JArr [] []), (''preferredSkills'', JArr [] []), (''keywords'', JArr [] [])]"

definition analyzeJob :: "inference \<Rightarrow> fields" where
  "analyzeJob oc = (case jobAnalysisJson oc of None \<Rightarrow> fallbackJobRequirements | Some jr \<Rightarrow> jr)"

section \<open>GapAnalyzer: step 4 of \<^verbatim>\<open>generateCVWithClaude\<close>\<close>

record gapAnalysis =
  matchedRequired :: "string list"
  missingRequired :: "string list"
  matchedPreferred :: "string list"
  matchPercentage :: int

text \<open>
  \<^verbatim>\<open>(v || [])\<close> used as an array whose callback calls \<^verbatim>\<open>.toLowerCase()\<close> on every element
  (\<^verbatim>\<open>.map(s => s.toLowerCase())\<close>, and \<^verbatim>\<open>.filter\<close> with \<^verbatim>\<open>skill.toLowerCase()\<close> evaluated first
  for every element): a truthy value that is no array has no \<^verbatim>\<open>map\<close> or \<^verbatim>\<open>filter\<close>, and an
  element that is no string has no \<^verbatim>\<open>toLowerCase\<close>; both throw a TypeError.
\<close>

fun asStrings :: "json list \<Rightarrow> error + string list" where
  "asStrings [] = Inr []"
| "asStrings (JStr s # rest) =
     (case asStrings rest of Inl e \<Rightarrow> Inl e | Inr ss \<Rightarrow> Inr (s # ss))"
| "asStrings (v # rest) = Inl TypeError"

definition stringArray :: "json \<Rightarrow> error + string list" where
  "stringArray v =
     (if \<not> truthy v then Inr []
      else case v of JArr xs ps \<Rightarrow> asStrings xs | _ \<Rightarrow> Inl TypeError)"

text \<open>\<^verbatim>\<open>new Set(xs)\<close>: the elements in the order of their first occurrence.\<close>

definition newSet :: "string list \<Rightarrow> string list" where
  "newSet xs = foldl (\<lambda>acc x. if x \<in> set acc then acc else acc @ [x]) [] xs"

text \<open>
  The predicate of both filters:
  \<^verbatim>\<open>candidateSkills.has(skill.toLowerCase()) ||\<close>
  \<^verbatim>\<open>[...candidateSkills].some(cs => cs.includes(skill.toLowerCase()) || skill.toLowerCase().includes(cs))\<close>
\<close>

definition skillMatches :: "string list \<Rightarrow> string \<Rightarrow> bool" where
  "skillMatches candidateSkills skill =
     (toLowerCase skill \<in> set candidateSkills \<or>
      list_ex (\<lambda>cs. str_includes cs (toLowerCase skill) \<or> str_includes (toLowerCase skill) cs)
        candidateSkills)"

text \<open>
  JavaScript numbers are binary64 doubles. The two lengths are integers, which doubles
  hold exactly; the quotient and then the product with 100 are each rounded to the
  nearest double, ties to the even mantissa. \<open>toDouble\<close> is that rounding for the values
  that occur here: \<open>x = 0\<close> or a rational \<open>x\<close> with \<open>2^-75 \<le> x < 2^53\<close> (a quotient of
  two array lengths is 0 or at least \<open>2^-32\<close>, and at most 1). Such an \<open>x\<close> lies in one
  binade, \<open>2^52 \<le> x * 2^s < 2^53\<close> for the least such \<open>s < 128\<close>, and its double is
  \<open>x * 2^s\<close> rounded to an integer, scaled back.
\<close>

definition roundHalfEven :: "rat \<Rightarrow> int" where
  "roundHalfEven k =
     (let f = \<lfloor>k\<rfloor>; r = k - of_int f
      in if r < 1 / 2 then f
         else if 1 / 2 < r then f + 1
         else if even f then f else f + 1)"

definition binadeShift :: "rat \<Rightarrow> nat" where
  "binadeShift x =
     (case List.find (\<lambda>s. 2 ^ 52 \<le> x * 2 ^ s) [0..<128] of
        Some s \<Rightarrow> s
      | None \<Rightarrow> 128)"

definition toDouble :: "rat \<Rightarrow> rat" where
  "toDouble x =
     (if x \<le> 0 then 0
      else of_int (roundHalfEven (x * 2 ^ binadeShift x)) / 2 ^ binadeShift x)"

text \<open>\<^verbatim>\<open>Math.round\<close>: the nearest integer, a half rounded up.\<close>

definition Math_round :: "rat \<Rightarrow> int" where
  "Math_round x = \<lfloor>x + 1 / 2\<rfloor>"

text \<open>
  \<^verbatim>\<open>requiredSkills.length > 0\<close>
  \<^verbatim>\<open>  ? Math.round((matchedRequired.length / requiredSkills.length) * 100) : 70\<close>
  For 23 matched of 40 required skills the product is the double 57.49999999999999, and
  the percentage is 57.
\<close>

definition matchPercent :: "string list \<Rightarrow> string list \<Rightarrow> int" where
  "matchPercent matched required =
     (if length required > 0
      then Math_round
             (toDouble (toDouble (of_nat (length matched) / of_nat (length required)) * 100))
      else 70)"

definition gapAnalysisStep :: "fields \<Rightarrow> fields \<Rightarrow> error + gapAnalysis" where
  "gapAnalysisStep extracted jobRequirements =
     (case stringArray (lookup extracted ''skills'') of
        Inl e \<Rightarrow> Inl e
      | Inr skills \<Rightarrow>
     (case stringArray (lookup jobRequirements ''requiredSkills'') of
        Inl e \<Rightarrow> Inl e
      | Inr requiredSkills \<Rightarrow>
     (case stringArray (lookup jobRequirements ''preferredSkills'') of
        Inl e \<Rightarrow> Inl e
      | Inr preferredSkills \<Rightarrow>
          (let candidateSkills = newSet (map toLowerCase skills);
               matched = filter (skillMatches candidateSkills) requiredSkills
           in Inr \<lparr>matchedRequired = matched,
                   missingRequired = filter (\<lambda>skill. skill \<notin> set matched) requiredSkills,
                   matchedPreferred = filter (skillMatches candidateSkills) preferredSkills,
                   matchPercentage = matchPercent matched requiredSkills\<rparr>))))"

section \<open>CvTailorer: steps 6 and 7 of \<^verbatim>\<open>generateCVWithClaude\<close>\<close>

text \<open>The object of the \<^verbatim>\<open>catch\<close> branch: the fallback built from the extracted data.\<close>

definition fallbackCvContent :: "fields \<Rightarrow> fields" where
  "fallbackCvContent extracted =
     [(''name'', lookup extracted ''name''),
      (''contact'', JObj [(''email'', lookup extracted ''email''),
                          (''phone'', lookup extracted ''phone''),
                          (''linkedin'', lookup extracted ''linkedin''),
                          (''location'', lookup extracted ''location'')]),
      (''nationality'', lookup extracted ''nationality''),
      (''visaStatus'', lookup extracted ''visaStatus''),
      (''headline'', js_or (lookup extracted ''currentTitle'') (JStr ''Professional'')),
      (''summary'', JStr ''Experienced professional.''),
      (''experience'', js_or (lookup extracted ''experience'') (JArr [] [])),
      (''education'', js_or (lookup extracted ''education'') (JArr [] [])),
      (''certifications'', js_or (lookup extracted ''certifications'') (JArr [] [])),
      (''languages'', js_or (lookup extracted ''languages'') (JArr [] []))]"

definition tailoredDraft :: "inference \<Rightarrow> fields \<Rightarrow> fields" where
  "tailoredDraft oc extracted =
     (case tailoringJson oc of None \<Rightarrow> fallbackCvContent extracted | Some draft \<Rightarrow> draft)"

text \<open>\<^verbatim>\<open>if (extractedData.k) cvContent.contact.k = extractedData.k;\<close>\<close>

definition overwriteContact :: "fields \<Rightarrow> string \<Rightarrow> fields \<Rightarrow> error + fields" where
  "overwriteContact extracted k cvc =
     (if truthy (lookup extracted k)
      then (case setProp (lookup cvc ''contact'') k (lookup extracted k) of
              Inl e \<Rightarrow> Inl e
            | Inr contact \<Rightarrow> Inr (assign ''contact'' contact cvc))
      else Inr cvc)"

text \<open>
  The six statements under the comment "Final validation - ensure we're using real data":
  \<^verbatim>\<open>cvContent.name = extractedData.name;\<close>
  \<^verbatim>\<open>if (extractedData.email) cvContent.contact.email = extractedData.email;\<close> (and phone, linkedin)
  \<^verbatim>\<open>cvContent.education = extractedData.education || cvContent.education;\<close>
  \<^verbatim>\<open>cvContent.languages = extractedData.languages || cvContent.languages;\<close>
\<close>

definition finalValidation :: "fields \<Rightarrow> fields \<Rightarrow> error + fields" where
  "finalValidation extracted draft =
     (case overwriteContact extracted ''email'' (assign ''name'' (lookup extracted ''name'') draft) of
        Inl e \<Rightarrow> Inl e
      | Inr c1 \<Rightarrow>
     (case overwriteContact extracted ''phone'' c1 of
        Inl e \<Rightarrow> Inl e
      | Inr c2 \<Rightarrow>
     (case overwriteContact extracted ''linkedin'' c2 of
        Inl e \<Rightarrow> Inl e
      | Inr c3 \<Rightarrow>
          (let c4 = assign ''education''
                      (js_or (lookup extracted ''education'') (lookup c3 ''education'')) c3
           in Inr (assign ''languages''
                     (js_or (lookup extracted ''languages'') (lookup c4 ''languages'')) c4)))))"

text \<open>
  What \<^verbatim>\<open>generateCVWithClaude\<close> returns. Of \<^verbatim>\<open>analysisSummary\<close> the model keeps
  \<^verbatim>\<open>jobAnalysis.title\<close> and \<^verbatim>\<open>gapAnalysis\<close>; its other members are counts and display texts
  that nothing reads back.
\<close>

record analysisSummary =
  jobAnalysisTitle :: json
  gapAnalysisSummary :: gapAnalysis

record cvResult =
  cvContent :: fields
  analysisSummary :: analysisSummary
  extractedData :: fields

text \<open>
  The statements of \<^verbatim>\<open>generateCVWithClaude\<close> between the stages convert values of the parsed
  responses to strings, and each conversion can throw.

  After the validation of the name:
  \<^verbatim>\<open>onProgress(`Found profile for: ${extractedData.name}`);\<close>
  \<^verbatim>\<open>const skillCount = extractedData.skills?.length || 0;\<close>
  \<^verbatim>\<open>const expCount = extractedData.experience?.length || 0;\<close>
  \<^verbatim>\<open>onProgress(`Identified ${expCount} roles and ${skillCount} skills ...`);\<close>
\<close>

definition profileSummaryThrows :: "fields \<Rightarrow> bool" where
  "profileSummaryThrows extracted =
     (toStringThrows (lookup extracted ''name'') \<or>
      toStringThrows (js_or (lengthProp (lookup extracted ''experience'')) (JNum 0)) \<or>
      toStringThrows (js_or (lengthProp (lookup extracted ''skills'')) (JNum 0)))"

text \<open>
  After the job analysis:
  \<^verbatim>\<open>onProgress(`Job: ${jobRequirements.jobTitle || jobData?.title || 'Position'} at\<close>
  \<^verbatim>\<open>  ${jobRequirements.company || jobData?.company || 'Company'}`);\<close>
  When the property of \<^verbatim>\<open>jobRequirements\<close> is falsy the value converted is a string (of
  \<^verbatim>\<open>jobData\<close>, or the literal), which converts without throwing whichever it is.
\<close>

definition jobHeaderThrows :: "fields \<Rightarrow> bool" where
  "jobHeaderThrows jobRequirements =
     (toStringThrows (js_or (lookup jobRequirements ''jobTitle'') (JStr ''Position'')) \<or>
      toStringThrows (js_or (lookup jobRequirements ''company'') (JStr ''Company'')))"

text \<open>
  The prompt of the tailoring call, built before the call is made. It holds
  \<^verbatim>\<open>"name": "${extractedData.name}"\<close> and, for each of email, phone, linkedin, location,
  nationality and visaStatus, \<^verbatim>\<open>${extractedData.k ? `"${extractedData.k}"` : 'null'}\<close>. Its other
  parts are \<^verbatim>\<open>JSON.stringify\<close> of parsed values and joins of strings, which do not throw.
\<close>

definition tailoringPromptThrows :: "fields \<Rightarrow> bool" where
  "tailoringPromptThrows extracted =
     (toStringThrows (lookup extracted ''name'') \<or>
      list_ex (\<lambda>k. truthy (lookup extracted k) \<and> toStringThrows (lookup extracted k))
        [''email'', ''phone'', ''linkedin'', ''location'', ''nationality'', ''visaStatus''])"

text \<open>
  In the summary built after the overwrite: \<^verbatim>\<open>topSkills: extractedData.skills?.slice(0, 8) || []\<close>.
  Arrays and strings have a \<^verbatim>\<open>slice\<close>; for any other value that is not \<^verbatim>\<open>undefined\<close> or \<^verbatim>\<open>null\<close>
  (the numbers and booleans, \<^verbatim>\<open>0\<close> and \<^verbatim>\<open>false\<close> among them, and the objects) the call throws.
\<close>

definition topSkillsThrows :: "fields \<Rightarrow> bool" where
  "topSkillsThrows extracted =
     (\<not> nullish (lookup extracted ''skills'') \<and> \<not> isArray (lookup extracted ''skills'') \<and>
      \<not> isText (lookup extracted ''skills''))"

text \<open>
  \<^verbatim>\<open>generateCVWithClaude\<close>. The texts of the progress messages and of the prompts are left
  out (they go to \<^verbatim>\<open>onProgress\<close> and to the inference provider); the exceptions of the
  conversions in them are kept. The first component counts the inference calls made
  before the function returns or throws.
\<close>

definition generateCVWithClaude :: "inference \<Rightarrow> profile option \<Rightarrow> cvText list \<Rightarrow> nat \<times> (error + cvResult)" where
  "generateCVWithClaude oc prof cvTexts =
     (case extractFacts oc prof cvTexts of
        (n, Inl e) \<Rightarrow> (n, Inl e)
      | (n, Inr extracted) \<Rightarrow>
          if profileSummaryThrows extracted then (1, Inl TypeError)
          else
          (let jobRequirements = analyzeJob oc
           in if jobHeaderThrows jobRequirements then (2, Inl TypeError)
              else
              case gapAnalysisStep extracted jobRequirements of
                Inl e \<Rightarrow> (2, Inl e)
              | Inr gap \<Rightarrow>
                  if tailoringPromptThrows extracted then (2, Inl TypeError)
                  else
                  (case finalValidation extracted (tailoredDraft oc extracted) of
                     Inl e \<Rightarrow> (3, Inl e)
                   | Inr final \<Rightarrow>
                       if topSkillsThrows extracted then (3, Inl TypeError)
                       else
                       (3, Inr \<lparr>cvContent = final,
                                analysisSummary =
                                  \<lparr>jobAnalysisTitle =
                                     js_or (lookup jobRequirements ''jobTitle'') (JStr ''Position''),
                                   gapAnalysisSummary = gap\<rparr>,
                                extractedData = extracted\<rparr>))))"

section \<open>CoverLetterWriter: \<^verbatim>\<open>generateCoverLetterWithClaude\<close>\<close>

text \<open>
  The prompt of the cover letter, built before the call is made, holds
  \<^verbatim>\<open>${candidateName}\<close>, \<^verbatim>\<open>${extractedData?.currentTitle || 'Professional'}\<close>,
  \<^verbatim>\<open>${extractedData?.yearsExperience || 'Several years'}\<close>,
  \<^verbatim>\<open>${candidateSkills.slice(0, 10).join(', ')}\<close> and
  \<^verbatim>\<open>${candidateExperience.slice(0, 2).map(exp =>\<close>
  \<^verbatim>\<open>    exp.achievements?.slice(0, 2).join('; ') || exp.title).join(' | ')}\<close>
  where \<^verbatim>\<open>candidateName\<close> is \<^verbatim>\<open>extractedData?.name || 'Candidate'\<close> and the two lists are
  \<^verbatim>\<open>extractedData?.k || []\<close>. A truthy list value that is no array throws (a string has
  \<^verbatim>\<open>slice\<close> but its result has no \<^verbatim>\<open>join\<close> or \<^verbatim>\<open>map\<close>), as do a \<^verbatim>\<open>null\<close> among the first two
  experiences and an \<^verbatim>\<open>achievements\<close> that is neither missing, \<^verbatim>\<open>null\<close> nor an array; every
  join and every interpolation converts its values to strings.
\<close>

text \<open>One experience: the callback of \<^verbatim>\<open>map\<close>, and the conversion of its result by the
  outer \<^verbatim>\<open>join\<close> (the title is what is joined when the achievements are missing or join
  to the empty string).\<close>

definition experiencePartBuilds :: "json \<Rightarrow> bool" where
  "experiencePartBuilds entry =
     (\<not> nullish entry \<and>
      (let achievements = readProp entry ''achievements'';
           titleJoins = \<not> joinThrows [readProp entry ''title'']
       in if nullish achievements then titleJoins
          else isArray achievements \<and>
               \<not> joinThrows (take 2 (elements achievements)) \<and>
               (if joinEmpty (take 2 (elements achievements)) then titleJoins else True)))"

definition coverLetterPromptBuilds :: "fields \<Rightarrow> bool" where
  "coverLetterPromptBuilds extracted =
     (let skills = js_or (lookup extracted ''skills'') (JArr [] []);
          experience = js_or (lookup extracted ''experience'') (JArr [] [])
      in \<not> toStringThrows (js_or (lookup extracted ''name'') (JStr ''Candidate'')) \<and>
         \<not> toStringThrows (js_or (lookup extracted ''currentTitle'') (JStr ''Professional'')) \<and>
         \<not> toStringThrows (js_or (lookup extracted ''yearsExperience'') (JStr ''Several years'')) \<and>
         isArray skills \<and> \<not> joinThrows (take 10 (elements skills)) \<and>
         isArray experience \<and>
         list_all experiencePartBuilds (take 2 (elements experience)))"

definition fallbackCoverLetter :: "jobData option \<Rightarrow> fields" where
  "fallbackCoverLetter jd =
     [(''opening'', JStr (''I am writing to express my interest in the '' @
                          strOr (optField title jd) ''position'' @ '' role at '' @
                          strOr (optField company jd) ''your company'' @ ''.'')),
      (''body'', JArr [JStr ''With my background and experience, I am confident I can contribute to your team.''] []),
      (''closing'', JStr ''I look forward to discussing this opportunity with you.''),
      (''companyName'', JStr (strOr (optField company jd) ''your company'')),
      (''jobTitle'', JStr (strOr (optField title jd) ''this position''))]"

definition generateCoverLetterWithClaude :: "inference \<Rightarrow> jobData option \<Rightarrow> fields \<Rightarrow> nat \<times> (error + fields)" where
  "generateCoverLetterWithClaude oc jd extracted =
     (if \<not> coverLetterPromptBuilds extracted then (0, Inl TypeError)
      else case coverLetterJson oc of
             Some letter \<Rightarrow> (1, Inr letter)
           | None \<Rightarrow> (1, Inr (fallbackCoverLetter jd)))"

section \<open>GenerationSessionStore: \<^verbatim>\<open>generatedDocs\<close>\<close>

record document =
  buffer :: string
  filename :: string
  content :: fields

record session =
  cv :: document
  coverLetter :: "document option"
  createdAt :: int

type_synonym store = "string \<rightharpoonup> session"

text \<open>
  \<^verbatim>\<open>const oneHourAgo = Date.now() - (60 * 60 * 1000);\<close>
  \<^verbatim>\<open>for (const [id, doc] of generatedDocs.entries())\<close>
  \<^verbatim>\<open>  if (doc.createdAt < oneHourAgo) generatedDocs.delete(id);\<close>
  The first argument is the value of \<^verbatim>\<open>Date.now()\<close>, in milliseconds.
\<close>

definition cleanupOldDocuments :: "int \<Rightarrow> store \<Rightarrow> store" where
  "cleanupOldDocuments now docs =
     (let oneHourAgo = now - 60 * 60 * 1000
      in (\<lambda>id. case docs id of
                  None \<Rightarrow> None
                | Some doc \<Rightarrow> if createdAt doc < oneHourAgo then None else Some doc))"

text \<open>The responses of \<^verbatim>\<open>GET /api/download/:sessionId/:docType\<close>: a JSON body with a
  status code, or the file as an attachment (status 200).\<close>

datatype response =
    JsonError nat string
  | Attachment string string

definition download :: "store \<Rightarrow> string \<Rightarrow> string \<Rightarrow> response" where
  "download docs sid docType =
     (case docs sid of
        None \<Rightarrow> JsonError 404 ''Documents not found or expired''
      | Some entry \<Rightarrow>
          (case (if docType = ''cv'' then Some (cv entry) else coverLetter entry) of
             None \<Rightarrow> JsonError 404 ''Document not found''
           | Some doc \<Rightarrow> Attachment (filename doc) (buffer doc)))"

section \<open>The request handler \<^verbatim>\<open>POST /api/generate\<close>\<close>

text \<open>
  \<^verbatim>\<open>(str || 'Document').replace(/[^a-zA-Z0-9\s-]/g, '').replace(/\s+/g, '_').slice(0, 50)\<close>
  A truthy argument that is no string has no \<^verbatim>\<open>replace\<close>.
\<close>

definition keptInFilename :: "char \<Rightarrow> bool" where
  "keptInFilename c =
     (let n = (of_char c :: nat)
      in (97 \<le> n \<and> n \<le> 122) \<or> (65 \<le> n \<and> n \<le> 90) \<or> (48 \<le> n \<and> n \<le> 57) \<or>
         isWhiteSpace c \<or> c = CHR ''-'')"

fun underscoreRuns :: "bool \<Rightarrow> string \<Rightarrow> string" where
  "underscoreRuns inRun [] = []"
| "underscoreRuns inRun (c # s) =
     (if isWhiteSpace c
      then (if inRun then underscoreRuns True s else CHR ''_'' # underscoreRuns True s)
      else c # underscoreRuns False s)"

definition sanitizeFilename :: "json \<Rightarrow> error + string" where
  "sanitizeFilename v =
     (case js_or v (JStr ''Document'') of
        JStr s \<Rightarrow> Inr (take 50 (underscoreRuns False (filter keptInFilename s)))
      | _ \<Rightarrow> Inl TypeError)"

text \<open>
  The request body (its \<^verbatim>\<open>profile\<close>, \<^verbatim>\<open>cvTexts\<close> and \<^verbatim>\<open>jobData\<close> may each be missing), and what
  the handler takes from its environment: the fresh session
  id, the two readings of the clock, the outcomes of the inference calls, the outcome of
  the query for the saved profile of a logged-in user (the query throws, or returns no row
  or a row), whether the database accepts the two inserts, and the renderers
  \<^verbatim>\<open>generateCV(cvContent, profile, region)\<close> and
  \<^verbatim>\<open>generateCoverLetter(letterContent, cvContent, jobData, region)\<close> of
  \<^verbatim>\<open>documentGenerator.js\<close>. The renderers build a document with the docx library, which is
  not part of the repository: each is a parameter that returns the buffer or the error
  it throws, and nothing is assumed about which one it is.
\<close>

record generateRequest =
  reqUserId :: "nat option"
  reqProfile :: "profile option"
  reqCvTexts :: "cvText list option"
  reqJobData :: "jobData option"
  reqGenerateCoverLetter :: bool

record savedRow =
  linkedin_profile_data :: "profile option"
  master_cv_text :: "string option"
  master_cv_filename :: "string option"

record environment =
  sessionId :: string
  storedAt :: int
  sweptAt :: int
  outcomes :: inference
  savedProfileQuery :: "error + savedRow option"
  insertsSucceed :: bool
  renderCV :: "fields \<Rightarrow> profile option \<Rightarrow> region \<Rightarrow> error + string"
  renderCoverLetter :: "fields \<Rightarrow> fields \<Rightarrow> jobData option \<Rightarrow> region \<Rightarrow> error + string"

text \<open>The rows of \<^verbatim>\<open>generated_documents\<close>: user id, CV file name, CV content.\<close>

record serverState =
  generatedDocs :: store
  savedDocuments :: "(nat \<times> string \<times> fields) list"

text \<open>The last event of the stream: \<^verbatim>\<open>{type: 'complete', sessionId, ...}\<close> or
  \<^verbatim>\<open>{type: 'error', message: error.message}\<close>, written by the \<^verbatim>\<open>catch\<close> of the handler. The
  progress events before it are not modelled.\<close>

datatype finalEvent =
    Complete string
  | ErrorEvent error

text \<open>
  The first block of the handler, for a logged-in user. The query is not inside a
  \<^verbatim>\<open>try\<close> of its own, so its exception ends the request.
  \<^verbatim>\<open>if (!profile && userProfile.linkedin_profile_data) profile = userProfile.linkedin_profile_data;\<close>
  \<^verbatim>\<open>if ((!cvTexts || cvTexts.length === 0) && userProfile.master_cv_text)\<close>
  \<^verbatim>\<open>  cvTexts = [{ filename: userProfile.master_cv_filename || 'Master CV',\<close>
  \<^verbatim>\<open>               text: userProfile.master_cv_text }];\<close>
\<close>

definition mergeSavedProfile :: "environment \<Rightarrow> generateRequest \<Rightarrow> error + (profile option \<times> cvText list option)" where
  "mergeSavedProfile env req =
     (case reqUserId req of
        None \<Rightarrow> Inr (reqProfile req, reqCvTexts req)
      | Some uid \<Rightarrow>
          (case savedProfileQuery env of
             Inl e \<Rightarrow> Inl e
           | Inr None \<Rightarrow> Inr (reqProfile req, reqCvTexts req)
           | Inr (Some row) \<Rightarrow>
               Inr (if reqProfile req = None \<and> linkedin_profile_data row \<noteq> None
                    then linkedin_profile_data row else reqProfile req,
                    if (reqCvTexts req = None \<or> reqCvTexts req = Some []) \<and>
                       strOr (master_cv_text row) [] \<noteq> []
                    then Some [\<lparr>cv_filename = strOr (master_cv_filename row) ''Master CV'',
                                cv_text = strOr (master_cv_text row) []\<rparr>]
                    else reqCvTexts req)))"

text \<open>
  The cover letter, when \<^verbatim>\<open>options?.generateCoverLetter !== false\<close>; \<^verbatim>\<open>null\<close> otherwise.
\<close>

definition coverLetterIfWanted :: "environment \<Rightarrow> generateRequest \<Rightarrow> fields \<Rightarrow> error + fields option" where
  "coverLetterIfWanted env req extracted =
     (if reqGenerateCoverLetter req
      then (case snd (generateCoverLetterWithClaude (outcomes env) (reqJobData req) extracted) of
              Inl e \<Rightarrow> Inl e
            | Inr letter \<Rightarrow> Inr (Some letter))
      else Inr None)"

text \<open>\<^verbatim>\<open>if (coverLetterContent) { coverLetterBuffer = await generateCoverLetter(...); ... }\<close>\<close>

definition renderLetterIfAny :: "environment \<Rightarrow> generateRequest \<Rightarrow> region \<Rightarrow> fields \<Rightarrow> string \<Rightarrow> fields option \<Rightarrow> error + document option" where
  "renderLetterIfAny env req reg cvc letterFilename coverLetterContent =
     (case coverLetterContent of
        None \<Rightarrow> Inr None
      | Some letter \<Rightarrow>
          (case renderCoverLetter env letter cvc (reqJobData req) reg of
             Inl e \<Rightarrow> Inl e
           | Inr coverLetterBuffer \<Rightarrow>
               Inr (Some \<lparr>buffer = coverLetterBuffer, filename = letterFilename,
                          content = letter\<rparr>)))"

text \<open>
  The database block: \<^verbatim>\<open>if (req.userId) { try { ...INSERT... } catch (dbError) { /* non-fatal */ } }\<close>.
  The block reads \<^verbatim>\<open>jobData.url\<close> without \<^verbatim>\<open>?.\<close>, so a missing \<^verbatim>\<open>jobData\<close> throws inside the
  \<^verbatim>\<open>try\<close> as a failing insert does; either way nothing is saved and the handler goes on.
\<close>

definition saveApplication :: "environment \<Rightarrow> generateRequest \<Rightarrow> string \<Rightarrow> fields \<Rightarrow> (nat \<times> string \<times> fields) list \<Rightarrow> (nat \<times> string \<times> fields) list" where
  "saveApplication env req cvFilename cvc saved =
     (case reqUserId req of
        None \<Rightarrow> saved
      | Some uid \<Rightarrow>
          if insertsSucceed env \<and> reqJobData req \<noteq> None then saved @ [(uid, cvFilename, cvc)]
          else saved)"

text \<open>
  The body of the \<^verbatim>\<open>try\<close> of the handler; every exception in it ends in the \<^verbatim>\<open>catch\<close>, which
  writes the error event. \<^verbatim>\<open>generateCVWithClaude\<close> starts with \<^verbatim>\<open>cvTexts.map(...)\<close>: called with a
  \<^verbatim>\<open>cvTexts\<close> that is still missing after the merge it throws a TypeError in that statement
  (the function above is \<^verbatim>\<open>generateCVWithClaude\<close> on an array).
\<close>

definition apiGenerate :: "environment \<Rightarrow> generateRequest \<Rightarrow> serverState \<Rightarrow> serverState \<times> finalEvent" where
  "apiGenerate env req st =
     (case mergeSavedProfile env req of
        Inl e \<Rightarrow> (st, ErrorEvent e)
      | Inr (prof, None) \<Rightarrow> (st, ErrorEvent TypeError)
      | Inr (prof, Some cvTexts) \<Rightarrow>
     (case snd (generateCVWithClaude (outcomes env) prof cvTexts) of
        Inl e \<Rightarrow> (st, ErrorEvent e)
      | Inr result \<Rightarrow>
     (case coverLetterIfWanted env req (extractedData result) of
        Inl e \<Rightarrow> (st, ErrorEvent e)
      | Inr coverLetterContent \<Rightarrow>
     (case renderCV env (cvContent result) prof (detectRegion (reqJobData req)) of
        Inl e \<Rightarrow> (st, ErrorEvent e)
      | Inr cvBuffer \<Rightarrow>
     (case sanitizeFilename (js_or (lookup (cvContent result) ''name'') (JStr ''Candidate'')) of
        Inl e \<Rightarrow> (st, ErrorEvent e)
      | Inr safeName \<Rightarrow>
     (case sanitizeFilename (jobAnalysisTitle (analysisSummary result)) of
        Inl e \<Rightarrow> (st, ErrorEvent e)
      | Inr safeJobTitle \<Rightarrow>
     (case renderLetterIfAny env req (detectRegion (reqJobData req)) (cvContent result)
             (''CoverLetter_'' @ safeName @ ''_'' @ safeJobTitle @ ''.docx'') coverLetterContent of
        Inl e \<Rightarrow> (st, ErrorEvent e)
      | Inr letterDocument \<Rightarrow>
          (let cvFilename = ''CV_'' @ safeName @ ''_'' @ safeJobTitle @ ''.docx'';
               entry = \<lparr>cv = \<lparr>buffer = cvBuffer, filename = cvFilename,
                               content = cvContent result\<rparr>,
                        coverLetter = letterDocument,
                        createdAt = storedAt env\<rparr>;
               stored = (generatedDocs st)(sessionId env \<mapsto> entry)
           in (\<lparr>generatedDocs = cleanupOldDocuments (sweptAt env) stored,
                savedDocuments = saveApplication env req cvFilename (cvContent result) (savedDocuments st)\<rparr>,
               Complete (sessionId env))))))))))"

section \<open>Well-typed responses\<close>

text \<open>
  The types that the data model gives to the fields the pipeline converts, slices or
  iterates, as predicates on parsed objects; they are hypotheses of the theorems that say
  a run goes on. A text field is a string, \<^verbatim>\<open>null\<close> or missing; a list of strings is an array
  of strings, \<^verbatim>\<open>null\<close> or missing.
\<close>

definition textOrMissing :: "json \<Rightarrow> bool" where
  "textOrMissing v = (nullish v \<or> isText v)"

definition stringsOrMissing :: "json \<Rightarrow> bool" where
  "stringsOrMissing v = (nullish v \<or> (isArray v \<and> list_all isText (elements v)))"

definition wellTypedExperience :: "json \<Rightarrow> bool" where
  "wellTypedExperience entry =
     (case entry of
        JObj fs \<Rightarrow> textOrMissing (lookup fs ''title'') \<and> stringsOrMissing (lookup fs ''achievements'')
      | _ \<Rightarrow> False)"

definition wellTypedProfile :: "fields \<Rightarrow> bool" where
  "wellTypedProfile extracted =
     (isText (lookup extracted ''name'') \<and>
      list_all (\<lambda>k. textOrMissing (lookup extracted k))
        [''email'', ''phone'', ''linkedin'', ''location'', ''nationality'', ''visaStatus'',
         ''currentTitle''] \<and>
      \<not> isObject (lookup extracted ''yearsExperience'') \<and>
      stringsOrMissing (lookup extracted ''skills'') \<and>
      (nullish (lookup extracted ''experience'') \<or>
       (isArray (lookup extracted ''experience'') \<and>
        list_all wellTypedExperience (elements (lookup extracted ''experience'')))))"

definition wellTypedJob :: "fields \<Rightarrow> bool" where
  "wellTypedJob jobRequirements =
     (textOrMissing (lookup jobRequirements ''jobTitle'') \<and>
      textOrMissing (lookup jobRequirements ''company'') \<and>
      stringsOrMissing (lookup jobRequirements ''requiredSkills'') \<and>
      stringsOrMissing (lookup jobRequirements ''preferredSkills''))"

section \<open>Basic facts about values and strings\<close>

lemma lookup_assign: "lookup (assign k v fs) k' = (if k' = k then v else lookup fs k')"
  by (induction fs) (auto simp: lookup_def)

lemma lookup_Nil: "lookup [] k = JUndefined"
  by (simp add: lookup_def)

lemma lookup_Cons: "lookup ((k, v) # fs) k' = (if k' = k then v else lookup fs k')"
  by (simp add: lookup_def)

lemma startsWith_iff: "startsWith s t \<longleftrightarrow> (\<exists>q. s = t @ q)"
  by (induction s t rule: startsWith.induct) auto

lemma str_includes_iff: "str_includes s t \<longleftrightarrow> (\<exists>p q. s = p @ t @ q)"
proof (induction s)
  case Nil
  show ?case by auto
next
  case (Cons c s)
  show ?case
  proof
    assume "str_includes (c # s) t"
    then consider "startsWith (c # s) t" | "str_includes s t" by auto
    then show "\<exists>p q. c # s = p @ t @ q"
    proof cases
      case 1
      then obtain q where "c # s = t @ q" using startsWith_iff by blast
      then have "c # s = [] @ t @ q" by simp
      then show ?thesis by blast
    next
      case 2
      then obtain p q where "s = p @ t @ q" using Cons.IH by blast
      then have "c # s = (c # p) @ t @ q" by simp
      then show ?thesis by blast
    qed
  next
    assume "\<exists>p q. c # s = p @ t @ q"
    then obtain p q where pq: "c # s = p @ t @ q" by blast
    show "str_includes (c # s) t"
    proof (cases p)
      case Nil
      with pq have "startsWith (c # s) t" using startsWith_iff by auto
      then show ?thesis by simp
    next
      case (Cons a p')
      with pq have "s = p' @ t @ q" by simp
      then have "str_includes s t" using Cons.IH by blast
      then show ?thesis by simp
    qed
  qed
qed

section \<open>The session store\<close>

text \<open>
  C9. An artifact stored at \<open>t0\<close> is gone after a sweep that runs later than
  \<open>t0 + 3600000\<close> ms, and a download of it then answers 404; the sweep removes exactly the
  entries older than one hour and leaves every other entry as it was; a download of an
  id that the store does not hold answers 404 (a JSON body, no exception).
\<close>

theorem session_store_sweep:
  fixes docs :: store
  shows "(createdAt d + 3600000 < now \<longrightarrow>
            cleanupOldDocuments now (docs(sid \<mapsto> d)) sid = None \<and>
            download (cleanupOldDocuments now (docs(sid \<mapsto> d))) sid docType =
              JsonError 404 ''Documents not found or expired'') \<and>
         (\<forall>k e. cleanupOldDocuments now docs k = Some e \<longleftrightarrow>
                  docs k = Some e \<and> \<not> createdAt e + 3600000 < now) \<and>
         (\<forall>k. cleanupOldDocuments now docs k = None \<longleftrightarrow>
                docs k = None \<or> (\<exists>e. docs k = Some e \<and> createdAt e + 3600000 < now)) \<and>
         (docs sid = None \<longrightarrow>
            download docs sid docType = JsonError 404 ''Documents not found or expired'')"
proof -
  have one: "\<And>m k. cleanupOldDocuments now m k =
      (case m k of None \<Rightarrow> None
       | Some e \<Rightarrow> if createdAt e + 3600000 < now then None else Some e)"
    by (auto simp: cleanupOldDocuments_def split: option.splits)
  have a: "createdAt d + 3600000 < now \<longrightarrow>
            cleanupOldDocuments now (docs(sid \<mapsto> d)) sid = None \<and>
            download (cleanupOldDocuments now (docs(sid \<mapsto> d))) sid docType =
              JsonError 404 ''Documents not found or expired''"
    by (simp add: one download_def)
  have b: "\<forall>k e. cleanupOldDocuments now docs k = Some e \<longleftrightarrow>
                  docs k = Some e \<and> \<not> createdAt e + 3600000 < now"
    by (auto simp: one split: option.splits)
  have c: "\<forall>k. cleanupOldDocuments now docs k = None \<longleftrightarrow>
                docs k = None \<or> (\<exists>e. docs k = Some e \<and> createdAt e + 3600000 < now)"
    by (auto simp: one split: option.splits)
  have d: "docs sid = None \<longrightarrow>
            download docs sid docType = JsonError 404 ''Documents not found or expired''"
    by (simp add: download_def)
  from a b c d show ?thesis by blast
qed

theorem session_store_sweep_witness:
  "cleanupOldDocuments 3602000
     (Map.empty(''s1'' \<mapsto> \<lparr>cv = \<lparr>buffer = ''docx'', filename = ''CV_Jane_Doe_Position.docx'',
                                   content = [(''name'', JStr ''Jane Doe'')]\<rparr>,
                            coverLetter = None, createdAt = 1000\<rparr>)) ''s1'' = None \<and>
   download (cleanupOldDocuments 3602000
     (Map.empty(''s1'' \<mapsto> \<lparr>cv = \<lparr>buffer = ''docx'', filename = ''CV_Jane_Doe_Position.docx'',
                                   content = [(''name'', JStr ''Jane Doe'')]\<rparr>,
                            coverLetter = None, createdAt = 1000\<rparr>))) ''s1'' ''cv'' =
     JsonError 404 ''Documents not found or expired''"
  using session_store_sweep [of
      "\<lparr>cv = \<lparr>buffer = ''docx'', filename = ''CV_Jane_Doe_Position.docx'',
               content = [(''name'', JStr ''Jane Doe'')]\<rparr>,
        coverLetter = None, createdAt = 1000\<rparr>"
      3602000 Map.empty "''s1''" "''cv''"]
  by simp

section \<open>The region classifier\<close>

text \<open>
  C8. What the code does with the location: whenever the job text is not empty, the
  location does not take part in the classification at all (the same posting is
  classified alike with any two locations). The posting "Backend developer" located in
  "Berlin" is classified GLOBAL, and EU only when its text is empty.
\<close>

theorem detectRegion_ignores_location:
  "r \<noteq> [] \<Longrightarrow>
     detectRegion (Some \<lparr>rawText = Some r, title = t, company = c, location = l\<rparr>) =
     detectRegion (Some \<lparr>rawText = Some r, title = t, company = c, location = l'\<rparr>)"
  by (simp add: detectRegion_def regionText_def optField_def strOr_def)

theorem detectRegion_ignores_location_witness:
  "detectRegion (Some \<lparr>rawText = Some ''Backend developer'', title = None, company = None,
                       location = Some ''Berlin''\<rparr>) = GLOBAL \<and>
   detectRegion (Some \<lparr>rawText = Some '''', title = None, company = None,
                       location = Some ''Berlin''\<rparr>) = EU"
proof -
  have g: "detectRegion (Some \<lparr>rawText = Some ''Backend developer'', title = None, company = None,
                       location = None\<rparr>) = GLOBAL"
    by code_simp
  have e: "detectRegion (Some \<lparr>rawText = Some '''', title = None, company = None,
                       location = Some ''Berlin''\<rparr>) = EU"
    by code_simp
  show ?thesis
    using detectRegion_ignores_location
      [of "''Backend developer''" None None "Some ''Berlin''" None] g e
    by simp
qed

lemma trim_empty_iff: "trim s = [] \<longleftrightarrow> (\<forall>c\<in>set s. isWhiteSpace c)"
proof
  assume "trim s = []"
  then have "dropWhile isWhiteSpace (rev (dropWhile isWhiteSpace s)) = []"
    by (simp add: trim_def)
  then have "\<forall>c\<in>set (dropWhile isWhiteSpace s). isWhiteSpace c"
    using dropWhile_eq_Nil_conv [of isWhiteSpace "rev (dropWhile isWhiteSpace s)"] by simp
  then have "dropWhile isWhiteSpace s = []"
    by (metis hd_dropWhile hd_in_set)
  then show "\<forall>c\<in>set s. isWhiteSpace c"
    using dropWhile_eq_Nil_conv [of isWhiteSpace s] by simp
next
  assume "\<forall>c\<in>set s. isWhiteSpace c"
  then have e: "dropWhile isWhiteSpace s = []"
    using dropWhile_eq_Nil_conv [of isWhiteSpace s] by blast
  show "trim s = []" unfolding trim_def e by simp
qed

section \<open>The fact extractor\<close>

lemma cleanEducation_error: "cleanEducation xs = Inl e \<Longrightarrow> e = TypeError"
  by (induction xs) (auto split: if_splits sum.splits)

lemma postProcessEducation_error: "postProcessEducation parsed = Inl e \<Longrightarrow> e = TypeError"
  by (auto simp: postProcessEducation_def Let_def cleanEducation_error
           split: if_splits json.splits sum.splits)

lemma asStrings_error: "asStrings xs = Inl e \<Longrightarrow> e = TypeError"
  by (induction xs rule: asStrings.induct) (auto split: sum.splits)

lemma stringArray_error: "stringArray v = Inl e \<Longrightarrow> e = TypeError"
  by (auto simp: stringArray_def asStrings_error split: if_splits json.splits)

lemma gapAnalysisStep_error: "gapAnalysisStep extracted jr = Inl e \<Longrightarrow> e = TypeError"
  by (auto simp: gapAnalysisStep_def Let_def stringArray_error split: sum.splits)

lemma setProp_error: "setProp t k v = Inl e \<Longrightarrow> e = TypeError"
  by (cases t) auto

lemma overwriteContact_error: "overwriteContact extracted k cvc = Inl e \<Longrightarrow> e = TypeError"
  by (auto simp: overwriteContact_def setProp_error split: if_splits sum.splits)

lemma finalValidation_error: "finalValidation extracted draft = Inl e \<Longrightarrow> e = TypeError"
  by (auto simp: finalValidation_def Let_def overwriteContact_error split: sum.splits)

lemma generateCV_after_extraction_error:
  assumes "extractFacts oc prof cvTexts = (n, Inr extracted)"
      and "snd (generateCVWithClaude oc prof cvTexts) = Inl e"
  shows "e = TypeError"
  using assms
  by (auto simp: generateCVWithClaude_def Let_def gapAnalysisStep_error finalValidation_error
           split: sum.splits if_splits)

lemma postProcessEducation_lookup:
  assumes "postProcessEducation parsed = Inr extracted" and "k \<noteq> ''education''"
  shows "lookup extracted k = lookup parsed k"
  using assms
  by (auto simp: postProcessEducation_def Let_def lookup_assign
           split: if_splits json.splits sum.splits)

lemma extractFacts_count:
  assumes "extractFacts oc prof cvTexts = (n, Inr extracted)"
  shows "n = 1"
  using assms
  by (auto simp: extractFacts_def split: if_splits option.splits sum.splits)

lemma generateCV_after_extraction:
  assumes "extractFacts oc prof cvTexts = (n, Inr extracted)"
  shows "1 \<le> fst (generateCVWithClaude oc prof cvTexts)"
  using assms extractFacts_count [OF assms]
  by (simp add: generateCVWithClaude_def Let_def split: sum.splits)

lemma generateCV_summary_throws:
  assumes "extractFacts oc prof cvTexts = (n, Inr extracted)"
      and "profileSummaryThrows extracted"
  shows "generateCVWithClaude oc prof cvTexts = (1, Inl TypeError)"
  using assms by (simp add: generateCVWithClaude_def)

lemma generateCV_reaches_job:
  assumes "extractFacts oc prof cvTexts = (n, Inr extracted)"
      and "\<not> profileSummaryThrows extracted"
  shows "2 \<le> fst (generateCVWithClaude oc prof cvTexts)"
  using assms by (simp add: generateCVWithClaude_def Let_def split: sum.splits)

lemma count_prints:
  assumes "nullish v \<or> isArray v"
  shows "\<not> toStringThrows (js_or (lengthProp v) (JNum 0))"
  using assms by (cases v) (auto simp: js_or_def)

lemma generateCV_extraction_error:
  assumes "extractFacts oc prof cvTexts = (n, Inl e)"
  shows "generateCVWithClaude oc prof cvTexts = (n, Inl e)"
  using assms by (simp add: generateCVWithClaude_def)

text \<open>
  C5. Let \<open>d\<close> be the text that the code concatenates from the profile and the CVs
  (with the separators it inserts). When \<open>d\<close> is blank (white space only) or shorter than
  100 characters, the run ends with \<open>InsufficientDataError\<close> and no inference call has
  been made. Otherwise the extraction call is made (at least one call is counted) and
  the run does not end with \<open>InsufficientDataError\<close>.
\<close>

theorem insufficient_data_aborts:
  "((\<forall>c\<in>set (userProvidedData prof cvTexts). isWhiteSpace c) \<or>
      length (userProvidedData prof cvTexts) < 100 \<longrightarrow>
      generateCVWithClaude oc prof cvTexts = (0, Inl InsufficientDataError)) \<and>
   (\<not> (\<forall>c\<in>set (userProvidedData prof cvTexts). isWhiteSpace c) \<and>
      100 \<le> length (userProvidedData prof cvTexts) \<longrightarrow>
      1 \<le> fst (generateCVWithClaude oc prof cvTexts) \<and>
      snd (generateCVWithClaude oc prof cvTexts) \<noteq> Inl InsufficientDataError)"
proof (intro conjI impI)
  assume "(\<forall>c\<in>set (userProvidedData prof cvTexts). isWhiteSpace c) \<or>
      length (userProvidedData prof cvTexts) < 100"
  then have "insufficientData (userProvidedData prof cvTexts)"
    by (simp add: insufficientData_def trim_empty_iff)
  then have "extractFacts oc prof cvTexts = (0, Inl InsufficientDataError)"
    by (simp add: extractFacts_def)
  then show "generateCVWithClaude oc prof cvTexts = (0, Inl InsufficientDataError)"
    by (rule generateCV_extraction_error)
next
  assume "\<not> (\<forall>c\<in>set (userProvidedData prof cvTexts). isWhiteSpace c) \<and>
      100 \<le> length (userProvidedData prof cvTexts)"
  then have suff: "\<not> insufficientData (userProvidedData prof cvTexts)"
    by (simp add: insufficientData_def trim_empty_iff)
  obtain n r where nr: "extractFacts oc prof cvTexts = (n, r)"
    by (cases "extractFacts oc prof cvTexts") auto
  have n1: "n = 1" and notins: "r \<noteq> Inl InsufficientDataError"
    using nr suff
    by (auto simp: extractFacts_def split: option.splits sum.splits if_splits
             dest: postProcessEducation_error)
  show "1 \<le> fst (generateCVWithClaude oc prof cvTexts)"
  proof (cases r)
    case (Inl e)
    then show ?thesis using nr n1 generateCV_extraction_error [of oc prof cvTexts n e] by simp
  next
    case (Inr x)
    then show ?thesis using nr generateCV_after_extraction [of oc prof cvTexts n x] by simp
  qed
  show "snd (generateCVWithClaude oc prof cvTexts) \<noteq> Inl InsufficientDataError"
  proof (cases r)
    case (Inl e)
    then show ?thesis
      using nr notins generateCV_extraction_error [of oc prof cvTexts n e] by simp
  next
    case (Inr x)
    then have "extractFacts oc prof cvTexts = (n, Inr x)" using nr by simp
    from generateCV_after_extraction_error [OF this] show ?thesis by auto
  qed
qed

theorem insufficient_data_aborts_witness:
  "generateCVWithClaude
     \<lparr>extractionJson = Some [(''name'', JStr ''Jane Doe'')], jobAnalysisJson = None,
      tailoringJson = None, coverLetterJson = None\<rparr>
     (Some \<lparr>profileRawText = Some ''Jane Doe, jane@x.com''\<rparr>) [] =
     (0, Inl InsufficientDataError) \<and>
   1 \<le> fst (generateCVWithClaude
     \<lparr>extractionJson = Some [(''name'', JStr ''Jane Doe'')], jobAnalysisJson = None,
      tailoringJson = None, coverLetterJson = None\<rparr>
     None [\<lparr>cv_filename = ''cv.docx'', cv_text = replicate 100 (CHR ''a'')\<rparr>])"
proof -
  have short: "length (userProvidedData (Some \<lparr>profileRawText = Some ''Jane Doe, jane@x.com''\<rparr>) []) < 100"
    by code_simp
  have long: "100 \<le> length (userProvidedData None
      [\<lparr>cv_filename = ''cv.docx'', cv_text = replicate 100 (CHR ''a'')\<rparr>])"
    by code_simp
  have "CHR ''a'' \<in> set (userProvidedData None
      [\<lparr>cv_filename = ''cv.docx'', cv_text = replicate 100 (CHR ''a'')\<rparr>])"
    by (simp add: userProvidedData_def)
  moreover have "\<not> isWhiteSpace (CHR ''a'')"
    by (simp add: isWhiteSpace_def)
  ultimately have nonblank: "\<not> (\<forall>c\<in>set (userProvidedData None
      [\<lparr>cv_filename = ''cv.docx'', cv_text = replicate 100 (CHR ''a'')\<rparr>]). isWhiteSpace c)"
    by blast
  show ?thesis
    using insufficient_data_aborts
            [of "Some \<lparr>profileRawText = Some ''Jane Doe, jane@x.com''\<rparr>" "[]"
                "\<lparr>extractionJson = Some [(''name'', JStr ''Jane Doe'')], jobAnalysisJson = None,
                  tailoringJson = None, coverLetterJson = None\<rparr>"]
          insufficient_data_aborts
            [of None "[\<lparr>cv_filename = ''cv.docx'', cv_text = replicate 100 (CHR ''a'')\<rparr>]"
                "\<lparr>extractionJson = Some [(''name'', JStr ''Jane Doe'')], jobAnalysisJson = None,
                  tailoringJson = None, coverLetterJson = None\<rparr>"]
          short long nonblank
    by blast
qed

text \<open>
  C6. On an input that is long enough, with an extraction response that parses and whose
  education list post-processes without an exception (the post-processing runs before
  the check of the name): the run ends with \<open>NameMissingError\<close> exactly when the extracted
  name is falsy or the text "null". For a name that is a string, \<^verbatim>\<open>null\<close> or missing (the
  type of the field in the data model) the rejected names are exactly: missing, \<^verbatim>\<open>null\<close>,
  the empty string, and "null". With any other name the extraction stage returns the
  extracted profile; the run then prints the name and the numbers of skills and roles,
  and either that conversion throws a TypeError after the one call made so far, or the
  pipeline goes on to its second inference call. It does go on when the name is a string
  and the skills and the experience are arrays, \<^verbatim>\<open>null\<close> or missing.
\<close>

theorem name_validation:
  assumes "\<not> insufficientData (userProvidedData prof cvTexts)"
      and "extractionJson oc = Some parsed"
      and "postProcessEducation parsed = Inr extracted"
  shows "(snd (generateCVWithClaude oc prof cvTexts) = Inl NameMissingError \<longleftrightarrow>
            \<not> truthy (lookup parsed ''name'') \<or> lookup parsed ''name'' = JStr ''null'') \<and>
         ((\<exists>s. lookup parsed ''name'' = JStr s) \<or> nullish (lookup parsed ''name'') \<longrightarrow>
            (snd (generateCVWithClaude oc prof cvTexts) = Inl NameMissingError \<longleftrightarrow>
               lookup parsed ''name'' \<in> {JUndefined, JNull, JStr [], JStr ''null''})) \<and>
         (truthy (lookup parsed ''name'') \<and> lookup parsed ''name'' \<noteq> JStr ''null'' \<longrightarrow>
            extractFacts oc prof cvTexts = (1, Inr extracted) \<and>
            (profileSummaryThrows extracted \<longrightarrow>
               generateCVWithClaude oc prof cvTexts = (1, Inl TypeError)) \<and>
            (\<not> profileSummaryThrows extracted \<longrightarrow>
               2 \<le> fst (generateCVWithClaude oc prof cvTexts))) \<and>
         ((\<exists>s. lookup parsed ''name'' = JStr s \<and> s \<noteq> [] \<and> s \<noteq> ''null'') \<and>
          (nullish (lookup parsed ''skills'') \<or> isArray (lookup parsed ''skills'')) \<and>
          (nullish (lookup parsed ''experience'') \<or> isArray (lookup parsed ''experience'')) \<longrightarrow>
            extractFacts oc prof cvTexts = (1, Inr extracted) \<and>
            2 \<le> fst (generateCVWithClaude oc prof cvTexts))"
proof -
  let ?name = "lookup parsed ''name''"
  let ?absent = "\<not> truthy ?name \<or> ?name = JStr ''null''"
  let ?gen = "generateCVWithClaude oc prof cvTexts"
  have same: "lookup extracted ''name'' = ?name"
    using assms(3) by (simp add: postProcessEducation_lookup)
  have sk: "lookup extracted ''skills'' = lookup parsed ''skills''"
    using assms(3) by (simp add: postProcessEducation_lookup)
  have ex: "lookup extracted ''experience'' = lookup parsed ''experience''"
    using assms(3) by (simp add: postProcessEducation_lookup)
  have miss: "nameMissing extracted \<longleftrightarrow> ?absent"
    by (simp add: nameMissing_def same)
  have ef: "extractFacts oc prof cvTexts =
              (if ?absent then (1, Inl NameMissingError) else (1, Inr extracted))"
    using assms miss by (simp add: extractFacts_def)
  have a: "snd ?gen = Inl NameMissingError \<longleftrightarrow> ?absent"
  proof (cases ?absent)
    case True
    then have "extractFacts oc prof cvTexts = (1, Inl NameMissingError)"
      using ef by simp
    then show ?thesis
      using True generateCV_extraction_error [of oc prof cvTexts 1 NameMissingError] by simp
  next
    case False
    then have ok: "extractFacts oc prof cvTexts = (1, Inr extracted)"
      using ef by simp
    have "snd ?gen \<noteq> Inl NameMissingError"
      using generateCV_after_extraction_error [OF ok] by blast
    then show ?thesis using False by simp
  qed
  have b: "(\<exists>s. ?name = JStr s) \<or> nullish ?name \<longrightarrow>
             (snd ?gen = Inl NameMissingError \<longleftrightarrow>
                ?name \<in> {JUndefined, JNull, JStr [], JStr ''null''})"
    unfolding a by (cases ?name) auto
  have c: "truthy ?name \<and> ?name \<noteq> JStr ''null'' \<longrightarrow>
            extractFacts oc prof cvTexts = (1, Inr extracted) \<and>
            (profileSummaryThrows extracted \<longrightarrow> ?gen = (1, Inl TypeError)) \<and>
            (\<not> profileSummaryThrows extracted \<longrightarrow> 2 \<le> fst ?gen)"
  proof
    assume "truthy ?name \<and> ?name \<noteq> JStr ''null''"
    then have ok: "extractFacts oc prof cvTexts = (1, Inr extracted)"
      using ef by simp
    show "extractFacts oc prof cvTexts = (1, Inr extracted) \<and>
            (profileSummaryThrows extracted \<longrightarrow> ?gen = (1, Inl TypeError)) \<and>
            (\<not> profileSummaryThrows extracted \<longrightarrow> 2 \<le> fst ?gen)"
      using ok generateCV_summary_throws [OF ok] generateCV_reaches_job [OF ok] by blast
  qed
  have d: "(\<exists>s. ?name = JStr s \<and> s \<noteq> [] \<and> s \<noteq> ''null'') \<and>
          (nullish (lookup parsed ''skills'') \<or> isArray (lookup parsed ''skills'')) \<and>
          (nullish (lookup parsed ''experience'') \<or> isArray (lookup parsed ''experience'')) \<longrightarrow>
            extractFacts oc prof cvTexts = (1, Inr extracted) \<and> 2 \<le> fst ?gen"
  proof
    assume h: "(\<exists>s. ?name = JStr s \<and> s \<noteq> [] \<and> s \<noteq> ''null'') \<and>
          (nullish (lookup parsed ''skills'') \<or> isArray (lookup parsed ''skills'')) \<and>
          (nullish (lookup parsed ''experience'') \<or> isArray (lookup parsed ''experience''))"
    then have "\<not> ?absent" by auto
    then have ok: "extractFacts oc prof cvTexts = (1, Inr extracted)"
      using ef by simp
    have n: "\<not> toStringThrows (lookup extracted ''name'')"
      using h same by auto
    have s: "\<not> toStringThrows (js_or (lengthProp (lookup extracted ''skills'')) (JNum 0))"
      using h unfolding sk by (intro count_prints) simp
    have e: "\<not> toStringThrows (js_or (lengthProp (lookup extracted ''experience'')) (JNum 0))"
      using h unfolding ex by (intro count_prints) simp
    have "\<not> profileSummaryThrows extracted"
      using n s e by (simp add: profileSummaryThrows_def)
    then show "extractFacts oc prof cvTexts = (1, Inr extracted) \<and> 2 \<le> fst ?gen"
      using ok generateCV_reaches_job [OF ok] by simp
  qed
  show ?thesis
    by (rule conjI [OF a conjI [OF b conjI [OF c d]]])
qed

theorem name_validation_witness:
  "snd (generateCVWithClaude
          \<lparr>extractionJson = Some [(''name'', JStr ''null''), (''email'', JStr ''jane@x.com'')],
           jobAnalysisJson = None, tailoringJson = None, coverLetterJson = None\<rparr>
          None [\<lparr>cv_filename = ''cv.docx'', cv_text = replicate 100 (CHR ''a'')\<rparr>]) =
     Inl NameMissingError \<and>
   2 \<le> fst (generateCVWithClaude
          \<lparr>extractionJson = Some [(''name'', JStr ''Jane Doe''), (''email'', JStr ''jane@x.com'')],
           jobAnalysisJson = None, tailoringJson = None, coverLetterJson = None\<rparr>
          None [\<lparr>cv_filename = ''cv.docx'', cv_text = replicate 100 (CHR ''a'')\<rparr>]) \<and>
   generateCVWithClaude
     \<lparr>extractionJson = Some [(''name'', JObj [(''toString'', JNum 1)])],
      jobAnalysisJson = None, tailoringJson = None, coverLetterJson = None\<rparr>
     None [\<lparr>cv_filename = ''cv.docx'', cv_text = replicate 100 (CHR ''a'')\<rparr>] =
     (1, Inl TypeError)"
proof -
  let ?cvs = "[\<lparr>cv_filename = ''cv.docx'', cv_text = replicate 100 (CHR ''a'')\<rparr>]"
  let ?p1 = "[(''name'', JStr ''null''), (''email'', JStr ''jane@x.com'')]"
  let ?p2 = "[(''name'', JStr ''Jane Doe''), (''email'', JStr ''jane@x.com'')]"
  let ?p3 = "[(''name'', JObj [(''toString'', JNum 1)])]"
  have long: "\<not> insufficientData (userProvidedData None ?cvs)"
    by code_simp
  have e1: "postProcessEducation ?p1 = Inr ?p1"
    by code_simp
  have e2: "postProcessEducation ?p2 = Inr ?p2"
    by code_simp
  have e3: "postProcessEducation ?p3 = Inr ?p3"
    by code_simp
  have n1: "lookup ?p1 ''name'' = JStr ''null''"
    by code_simp
  have n2: "lookup ?p2 ''name'' = JStr ''Jane Doe''"
           "lookup ?p2 ''skills'' = JUndefined" "lookup ?p2 ''experience'' = JUndefined"
    by code_simp+
  have n3: "lookup ?p3 ''name'' = JObj [(''toString'', JNum 1)]"
           "profileSummaryThrows ?p3"
    by code_simp+
  have a: "snd (generateCVWithClaude
          \<lparr>extractionJson = Some ?p1, jobAnalysisJson = None, tailoringJson = None,
           coverLetterJson = None\<rparr> None ?cvs) = Inl NameMissingError"
    using name_validation
            [of None ?cvs
                "\<lparr>extractionJson = Some ?p1, jobAnalysisJson = None, tailoringJson = None,
                  coverLetterJson = None\<rparr>" ?p1 ?p1, OF long _ e1]
          n1
    by simp
  have b: "2 \<le> fst (generateCVWithClaude
          \<lparr>extractionJson = Some ?p2, jobAnalysisJson = None, tailoringJson = None,
           coverLetterJson = None\<rparr> None ?cvs)"
    using name_validation
            [of None ?cvs
                "\<lparr>extractionJson = Some ?p2, jobAnalysisJson = None, tailoringJson = None,
                  coverLetterJson = None\<rparr>" ?p2 ?p2, OF long _ e2]
          n2
    by simp
  have c: "generateCVWithClaude
          \<lparr>extractionJson = Some ?p3, jobAnalysisJson = None, tailoringJson = None,
           coverLetterJson = None\<rparr> None ?cvs = (1, Inl TypeError)"
    using name_validation
            [of None ?cvs
                "\<lparr>extractionJson = Some ?p3, jobAnalysisJson = None, tailoringJson = None,
                  coverLetterJson = None\<rparr>" ?p3 ?p3, OF long _ e3]
          n3
    by simp
  from a b c show ?thesis by simp
qed

section \<open>The gap analysis\<close>

lemma roundHalfEven_le:
  assumes "k \<le> of_int N"
  shows "roundHalfEven k \<le> N"
proof -
  have f: "\<lfloor>k\<rfloor> \<le> N" using assms by (simp add: floor_le_iff)
  have "\<lfloor>k\<rfloor> + 1 \<le> N" if "k - of_int \<lfloor>k\<rfloor> \<noteq> 0"
  proof -
    have "of_int \<lfloor>k\<rfloor> \<le> k" by (rule of_int_floor_le)
    then have "of_int \<lfloor>k\<rfloor> < k" using that by linarith
    then have "of_int \<lfloor>k\<rfloor> < (of_int N :: rat)" using assms by simp
    then show ?thesis by simp
  qed
  then show ?thesis using f by (auto simp: roundHalfEven_def Let_def)
qed

lemma roundHalfEven_nonneg:
  assumes "0 \<le> k"
  shows "0 \<le> roundHalfEven k"
proof -
  have "0 \<le> \<lfloor>k\<rfloor>" using assms by simp
  then show ?thesis by (auto simp: roundHalfEven_def Let_def)
qed

lemma toDouble_nonneg: "0 \<le> toDouble x"
proof (cases "x \<le> 0")
  case True
  then show ?thesis by (simp add: toDouble_def)
next
  case False
  then have "0 \<le> x * 2 ^ binadeShift x" by simp
  then have "0 \<le> roundHalfEven (x * 2 ^ binadeShift x)" by (rule roundHalfEven_nonneg)
  then show ?thesis using False by (simp add: toDouble_def)
qed

text \<open>Rounding to a double does not pass an integer bound (every integer is a multiple of
  the unit in the last place, for these values).\<close>

lemma toDouble_le:
  assumes "0 \<le> x" and "x \<le> of_int N"
  shows "toDouble x \<le> of_int N"
proof (cases "x \<le> 0")
  case True
  then have "toDouble x = 0" by (simp add: toDouble_def)
  moreover have "(0 :: rat) \<le> of_int N" using assms by simp
  ultimately show ?thesis by simp
next
  case False
  let ?s = "binadeShift x"
  have "x * 2 ^ ?s \<le> of_int N * 2 ^ ?s" using assms(2) by simp
  then have "x * 2 ^ ?s \<le> of_int (N * 2 ^ ?s)" by simp
  then have "roundHalfEven (x * 2 ^ ?s) \<le> N * 2 ^ ?s" by (rule roundHalfEven_le)
  then have "(of_int (roundHalfEven (x * 2 ^ ?s)) :: rat) \<le> of_int (N * 2 ^ ?s)"
    by (simp only: of_int_le_iff)
  then have "(of_int (roundHalfEven (x * 2 ^ ?s)) :: rat) / 2 ^ ?s \<le> of_int N"
    by (simp add: pos_divide_le_eq)
  then show ?thesis using False by (simp add: toDouble_def)
qed

lemma Math_round_range:
  assumes "m \<le> n" "0 < n"
  shows "0 \<le> Math_round (toDouble (toDouble (of_nat m / of_nat n) * 100)) \<and>
         Math_round (toDouble (toDouble (of_nat m / of_nat n) * 100)) \<le> 100"
proof -
  let ?q = "toDouble (of_nat m / of_nat n)"
  let ?x = "toDouble (?q * 100)"
  have "(of_nat m :: rat) / of_nat n \<le> 1" using assms by simp
  then have "?q \<le> of_int 1"
    by (intro toDouble_le) simp_all
  then have q1: "?q * 100 \<le> of_int 100" by simp
  have q0: "0 \<le> ?q * 100" using toDouble_nonneg [of "of_nat m / of_nat n"] by simp
  have hi: "?x \<le> 100" using toDouble_le [OF q0 q1] by simp
  have lo: "0 \<le> ?x" by (rule toDouble_nonneg)
  have "0 \<le> \<lfloor>?x + 1 / 2\<rfloor>" using lo by simp
  moreover have "\<lfloor>?x + 1 / 2\<rfloor> \<le> 100" using hi by (simp add: floor_le_iff)
  ultimately show ?thesis by (simp add: Math_round_def)
qed

lemma matchPercent_23_of_40:
  "matchPercent (replicate 23 ''skill'') (replicate 40 ''skill'') = 57"
  by code_simp

lemma matchPercent_range:
  assumes "length matched \<le> length required"
  shows "0 \<le> matchPercent matched required \<and> matchPercent matched required \<le> 100"
  using assms Math_round_range [of "length matched" "length required"]
  by (simp add: matchPercent_def)

lemma set_foldl_add:
  "set (foldl (\<lambda>acc x. if x \<in> set acc then acc else acc @ [x]) a xs) = set a \<union> set xs"
  by (induction xs arbitrary: a) auto

lemma set_newSet: "set (newSet xs) = set xs"
  by (simp add: newSet_def set_foldl_add)

lemma str_includes_refl: "str_includes s s"
  using str_includes_iff [of s s] by (metis append_Nil append_Nil2)

lemma skillMatches_iff:
  "skillMatches (newSet (map toLowerCase skills)) r \<longleftrightarrow>
     (\<exists>c\<in>set skills. str_includes (toLowerCase c) (toLowerCase r) \<or>
                       str_includes (toLowerCase r) (toLowerCase c))"
proof -
  have "toLowerCase r \<in> toLowerCase ` set skills \<Longrightarrow>
          \<exists>c\<in>set skills. str_includes (toLowerCase c) (toLowerCase r)"
    using str_includes_refl by fastforce
  then show ?thesis
    by (auto simp: skillMatches_def list_ex_iff set_newSet)
qed

lemma gapAnalysisStep_typed:
  assumes "stringArray (lookup extracted ''skills'') = Inr skills"
      and "stringArray (lookup jr ''requiredSkills'') = Inr required"
      and "stringArray (lookup jr ''preferredSkills'') = Inr preferred"
  shows "gapAnalysisStep extracted jr =
           Inr \<lparr>matchedRequired =
                  filter (skillMatches (newSet (map toLowerCase skills))) required,
                missingRequired =
                  filter (\<lambda>skill. skill \<notin> set (filter (skillMatches (newSet (map toLowerCase skills))) required))
                    required,
                matchedPreferred =
                  filter (skillMatches (newSet (map toLowerCase skills))) preferred,
                matchPercentage =
                  matchPercent (filter (skillMatches (newSet (map toLowerCase skills))) required)
                    required\<rparr>"
  using assms by (simp add: gapAnalysisStep_def Let_def)

text \<open>
  C2. For an extracted profile and job requirements whose skill lists are arrays of
  strings (or missing), the gap analysis returns, and its \<open>matchPercentage\<close> is an integer
  between 0 and 100: it is 70 when there is no required skill, whatever the profile's
  skills are, and otherwise \<open>round (matched / required * 100)\<close> for the numbers of
  matched and of required skills, the quotient and the product taken in doubles as the
  code takes them.
\<close>

theorem matchPercentage_range:
  assumes "stringArray (lookup extracted ''skills'') = Inr skills"
      and "stringArray (lookup jr ''requiredSkills'') = Inr required"
      and "stringArray (lookup jr ''preferredSkills'') = Inr preferred"
  shows "\<exists>gap. gapAnalysisStep extracted jr = Inr gap \<and>
           0 \<le> matchPercentage gap \<and> matchPercentage gap \<le> 100 \<and>
           (required = [] \<longrightarrow> matchPercentage gap = 70) \<and>
           (required \<noteq> [] \<longrightarrow>
              matchPercentage gap =
                Math_round
                  (toDouble (toDouble (of_nat (length (matchedRequired gap)) /
                                       of_nat (length required)) * 100)))"
proof -
  let ?m = "filter (skillMatches (newSet (map toLowerCase skills))) required"
  have len: "length ?m \<le> length required" by simp
  have "0 \<le> matchPercent ?m required \<and> matchPercent ?m required \<le> 100"
    using len by (rule matchPercent_range)
  moreover have "required = [] \<longrightarrow> matchPercent ?m required = 70"
    by (simp add: matchPercent_def)
  moreover have "required \<noteq> [] \<longrightarrow> matchPercent ?m required =
      Math_round (toDouble (toDouble (of_nat (length ?m) / of_nat (length required)) * 100))"
    by (simp add: matchPercent_def)
  ultimately show ?thesis
    using gapAnalysisStep_typed [OF assms] by simp
qed

theorem matchPercentage_range_witness:
  "(\<exists>gap. gapAnalysisStep
            [(''name'', JStr ''Jane Doe''), (''skills'', JArr [JStr ''Agile'', JStr ''SQL''] [])]
            [(''requiredSkills'', JArr [JStr ''Agile'', JStr ''SQL'', JStr ''Roadmapping''] [])] = Inr gap \<and>
          0 \<le> matchPercentage gap \<and> matchPercentage gap \<le> 100 \<and> matchPercentage gap = 67) \<and>
   (\<exists>gap. gapAnalysisStep
            [(''name'', JStr ''Jane Doe''), (''skills'', JArr [JStr ''Agile'', JStr ''SQL''] [])]
            [(''requiredSkills'', JArr [] [])] = Inr gap \<and>
          matchPercentage gap = 70)"
proof -
  let ?ed = "[(''name'', JStr ''Jane Doe''), (''skills'', JArr [JStr ''Agile'', JStr ''SQL''] [])]"
  let ?jr = "[(''requiredSkills'', JArr [JStr ''Agile'', JStr ''SQL'', JStr ''Roadmapping''] [])]"
  let ?j0 = "[(''requiredSkills'', JArr [] [])]"
  have s: "stringArray (lookup ?ed ''skills'') = Inr [''Agile'', ''SQL'']"
    by code_simp
  have r: "stringArray (lookup ?jr ''requiredSkills'') = Inr [''Agile'', ''SQL'', ''Roadmapping'']"
    by code_simp
  have p: "stringArray (lookup ?jr ''preferredSkills'') = Inr []"
    by code_simp
  have r0: "stringArray (lookup ?j0 ''requiredSkills'') = Inr []"
    by code_simp
  have p0: "stringArray (lookup ?j0 ''preferredSkills'') = Inr []"
    by code_simp
  have v: "gapAnalysisStep ?ed ?jr =
             Inr \<lparr>matchedRequired = [''Agile'', ''SQL''], missingRequired = [''Roadmapping''],
                  matchedPreferred = [], matchPercentage = 67\<rparr>"
    by code_simp
  show ?thesis
    using matchPercentage_range [OF s r p] matchPercentage_range [OF s r0 p0] v
    by auto
qed

text \<open>
  C3. Matching ignores case and is containment in either direction: a required skill is
  kept in \<open>matchedRequired\<close> exactly when, after lowercasing, some skill of the candidate
  contains it as a substring or is contained in it; \<open>missingRequired\<close> are the other
  required skills; preferred skills are matched by the same test. With required skills
  SQL and Python and the one candidate skill "Advanced SQL", the matched skills are
  [SQL] and the percentage is 50.
\<close>

theorem skill_matching_bidirectional:
  assumes "stringArray (lookup extracted ''skills'') = Inr skills"
      and "stringArray (lookup jr ''requiredSkills'') = Inr required"
      and "stringArray (lookup jr ''preferredSkills'') = Inr preferred"
  shows "(\<exists>gap. gapAnalysisStep extracted jr = Inr gap \<and>
            matchedRequired gap =
              filter (\<lambda>r. \<exists>c\<in>set skills.
                        (\<exists>p q. toLowerCase c = p @ toLowerCase r @ q) \<or>
                        (\<exists>p q. toLowerCase r = p @ toLowerCase c @ q)) required \<and>
            missingRequired gap =
              filter (\<lambda>r. \<not> (\<exists>c\<in>set skills.
                        (\<exists>p q. toLowerCase c = p @ toLowerCase r @ q) \<or>
                        (\<exists>p q. toLowerCase r = p @ toLowerCase c @ q))) required \<and>
            matchedPreferred gap =
              filter (\<lambda>r. \<exists>c\<in>set skills.
                        (\<exists>p q. toLowerCase c = p @ toLowerCase r @ q) \<or>
                        (\<exists>p q. toLowerCase r = p @ toLowerCase c @ q)) preferred) \<and>
         gapAnalysisStep [(''skills'', JArr [JStr ''Advanced SQL''] [])]
                         [(''requiredSkills'', JArr [JStr ''SQL'', JStr ''Python''] [])] =
           Inr \<lparr>matchedRequired = [''SQL''], missingRequired = [''Python''],
                matchedPreferred = [], matchPercentage = 50\<rparr>"
proof -
  let ?P = "\<lambda>r. \<exists>c\<in>set skills.
                        (\<exists>p q. toLowerCase c = p @ toLowerCase r @ q) \<or>
                        (\<exists>p q. toLowerCase r = p @ toLowerCase c @ q)"
  have P: "skillMatches (newSet (map toLowerCase skills)) = ?P"
    by (rule ext) (simp add: skillMatches_iff str_includes_iff)
  have "{x \<in> set required. ?P x} = set (filter ?P required)" by auto
  then have miss: "filter (\<lambda>skill. skill \<notin> set (filter ?P required)) required =
               filter (\<lambda>r. \<not> ?P r) required"
    by (intro filter_cong) auto
  have example: "gapAnalysisStep [(''skills'', JArr [JStr ''Advanced SQL''] [])]
                         [(''requiredSkills'', JArr [JStr ''SQL'', JStr ''Python''] [])] =
           Inr \<lparr>matchedRequired = [''SQL''], missingRequired = [''Python''],
                matchedPreferred = [], matchPercentage = 50\<rparr>"
    by code_simp
  have "gapAnalysisStep extracted jr =
          Inr \<lparr>matchedRequired = filter ?P required,
               missingRequired = filter (\<lambda>r. \<not> ?P r) required,
               matchedPreferred = filter ?P preferred,
               matchPercentage = matchPercent (filter ?P required) required\<rparr>"
    using gapAnalysisStep_typed [OF assms] unfolding P miss by simp
  then show ?thesis using example by simp
qed

theorem skill_matching_bidirectional_witness:
  "gapAnalysisStep [(''skills'', JArr [JStr ''Advanced SQL'', JStr ''r''] [])]
                   [(''requiredSkills'', JArr [JStr ''SQL'', JStr ''Python'', JStr ''HR''] []),
                    (''preferredSkills'', JArr [JStr ''sql server''] [])] =
     Inr \<lparr>matchedRequired = [''SQL'', ''HR''], missingRequired = [''Python''],
          matchedPreferred = [''sql server''], matchPercentage = 67\<rparr> \<and>
   (\<exists>gap. gapAnalysisStep [(''skills'', JArr [JStr ''Advanced SQL'', JStr ''r''] [])]
                   [(''requiredSkills'', JArr [JStr ''SQL'', JStr ''Python'', JStr ''HR''] []),
                    (''preferredSkills'', JArr [JStr ''sql server''] [])] = Inr gap \<and>
          missingRequired gap =
            filter (\<lambda>r. \<not> (\<exists>c\<in>set [''Advanced SQL'', ''r''].
                      (\<exists>p q. toLowerCase c = p @ toLowerCase r @ q) \<or>
                      (\<exists>p q. toLowerCase r = p @ toLowerCase c @ q)))
              [''SQL'', ''Python'', ''HR''])"
proof -
  let ?ed = "[(''skills'', JArr [JStr ''Advanced SQL'', JStr ''r''] [])]"
  let ?jr = "[(''requiredSkills'', JArr [JStr ''SQL'', JStr ''Python'', JStr ''HR''] []),
              (''preferredSkills'', JArr [JStr ''sql server''] [])]"
  have s: "stringArray (lookup ?ed ''skills'') = Inr [''Advanced SQL'', ''r'']"
    by code_simp
  have r: "stringArray (lookup ?jr ''requiredSkills'') = Inr [''SQL'', ''Python'', ''HR'']"
    by code_simp
  have p: "stringArray (lookup ?jr ''preferredSkills'') = Inr [''sql server'']"
    by code_simp
  have v: "gapAnalysisStep ?ed ?jr =
     Inr \<lparr>matchedRequired = [''SQL'', ''HR''], missingRequired = [''Python''],
          matchedPreferred = [''sql server''], matchPercentage = 67\<rparr>"
    by code_simp
  from skill_matching_bidirectional [OF s r p]
  obtain gap where g: "gapAnalysisStep ?ed ?jr = Inr gap"
    and m: "missingRequired gap =
            filter (\<lambda>r. \<not> (\<exists>c\<in>set [''Advanced SQL'', ''r''].
                      (\<exists>p q. toLowerCase c = p @ toLowerCase r @ q) \<or>
                      (\<exists>p q. toLowerCase r = p @ toLowerCase c @ q)))
              [''SQL'', ''Python'', ''HR'']"
    by blast
  from v g m show ?thesis by blast
qed

section \<open>The identity overwrite\<close>

lemma setProp_read:
  assumes "setProp t k v = Inr t'"
  shows "\<not> nullish t \<and> \<not> nullish t' \<and> isObject t' = isObject t \<and>
         (isObject t \<longrightarrow> readProp t' k' = (if k' = k then v else readProp t k')) \<and>
         (\<not> isObject t \<longrightarrow> t' = t)"
  using assms by (cases t) (auto simp: lookup_assign)

lemma setProp_total: "\<not> nullish t \<Longrightarrow> \<exists>t'. setProp t k v = Inr t'"
  by (cases t) auto

lemma setProp_nullish: "nullish t \<Longrightarrow> setProp t k v = Inl TypeError"
  by (cases t) auto

lemma overwriteContact_result:
  assumes "overwriteContact extracted k c = Inr c'"
  shows "(\<forall>k'. k' \<noteq> ''contact'' \<longrightarrow> lookup c' k' = lookup c k') \<and>
         (truthy (lookup extracted k) \<longrightarrow>
            setProp (lookup c ''contact'') k (lookup extracted k) = Inr (lookup c' ''contact'')) \<and>
         (\<not> truthy (lookup extracted k) \<longrightarrow> c' = c)"
  using assms
  by (auto simp: overwriteContact_def lookup_assign split: if_splits sum.splits)

lemma overwriteContact_fails:
  "overwriteContact extracted k c = Inl TypeError \<longleftrightarrow>
     truthy (lookup extracted k) \<and> nullish (lookup c ''contact'')"
proof (cases "nullish (lookup c ''contact'')")
  case True
  then show ?thesis
    by (simp add: overwriteContact_def setProp_nullish)
next
  case False
  then obtain t' where "setProp (lookup c ''contact'') k (lookup extracted k) = Inr t'"
    using setProp_total by blast
  then show ?thesis using False by (simp add: overwriteContact_def)
qed

lemma overwriteContact_cases:
  "overwriteContact extracted k c = Inl TypeError \<or> (\<exists>c'. overwriteContact extracted k c = Inr c')"
  by (cases "overwriteContact extracted k c") (auto dest: overwriteContact_error)

lemma overwriteContact_contact:
  assumes "overwriteContact extracted k c = Inr c'"
  shows "nullish (lookup c' ''contact'') = nullish (lookup c ''contact'')"
proof (cases "truthy (lookup extracted k)")
  case True
  then have "setProp (lookup c ''contact'') k (lookup extracted k) = Inr (lookup c' ''contact'')"
    using overwriteContact_result [OF assms] by simp
  then show ?thesis using setProp_read by blast
next
  case False
  then show ?thesis using overwriteContact_result [OF assms] by simp
qed

text \<open>The overwrite throws exactly when the draft has no contact (missing or \<^verbatim>\<open>null\<close>)
  and one of the three extracted contact fields is truthy.\<close>

lemma finalValidation_fails:
  "finalValidation extracted draft = Inl TypeError \<longleftrightarrow>
     nullish (lookup draft ''contact'') \<and>
     (truthy (lookup extracted ''email'') \<or> truthy (lookup extracted ''phone'') \<or>
      truthy (lookup extracted ''linkedin''))"
proof -
  let ?d0 = "assign ''name'' (lookup extracted ''name'') draft"
  have c0: "lookup ?d0 ''contact'' = lookup draft ''contact''"
    by (simp add: lookup_assign)
  show ?thesis
  proof (cases "overwriteContact extracted ''email'' ?d0")
    case (Inl e)
    then have "e = TypeError" by (rule overwriteContact_error)
    then show ?thesis
      using Inl overwriteContact_fails [of extracted "''email''" ?d0] c0
      by (simp add: finalValidation_def)
  next
    case c1: (Inr c1)
    have n1: "nullish (lookup c1 ''contact'') = nullish (lookup draft ''contact'')"
      using overwriteContact_contact [OF c1] c0 by simp
    have f1: "\<not> (truthy (lookup extracted ''email'') \<and> nullish (lookup draft ''contact''))"
      using overwriteContact_fails [of extracted "''email''" ?d0] c1 c0 by simp
    show ?thesis
    proof (cases "overwriteContact extracted ''phone'' c1")
      case (Inl e)
      then have "e = TypeError" by (rule overwriteContact_error)
      then show ?thesis
        using Inl c1 overwriteContact_fails [of extracted "''phone''" c1] n1
        by (simp add: finalValidation_def)
    next
      case c2: (Inr c2)
      have n2: "nullish (lookup c2 ''contact'') = nullish (lookup draft ''contact'')"
        using overwriteContact_contact [OF c2] n1 by simp
      have f2: "\<not> (truthy (lookup extracted ''phone'') \<and> nullish (lookup draft ''contact''))"
        using overwriteContact_fails [of extracted "''phone''" c1] c2 n1 by simp
      show ?thesis
      proof (cases "overwriteContact extracted ''linkedin'' c2")
        case (Inl e)
        then have "e = TypeError" by (rule overwriteContact_error)
        then show ?thesis
          using Inl c1 c2 overwriteContact_fails [of extracted "''linkedin''" c2] n2
          by (simp add: finalValidation_def)
      next
        case c3: (Inr c3)
        have f3: "\<not> (truthy (lookup extracted ''linkedin'') \<and> nullish (lookup draft ''contact''))"
          using overwriteContact_fails [of extracted "''linkedin''" c2] c3 n2 by simp
        show ?thesis
          using c1 c2 c3 f1 f2 f3 by (auto simp: finalValidation_def Let_def)
      qed
    qed
  qed
qed

lemma finalValidation_cases:
  "finalValidation extracted draft = Inl TypeError \<or>
   (\<exists>final. finalValidation extracted draft = Inr final)"
  by (cases "finalValidation extracted draft") (auto dest: finalValidation_error)

text \<open>What a successful overwrite leaves in the final content.\<close>

lemma finalValidation_result:
  assumes "finalValidation extracted draft = Inr final"
  shows "lookup final ''name'' = lookup extracted ''name''"
    and "lookup final ''education'' =
           js_or (lookup extracted ''education'') (lookup draft ''education'')"
    and "lookup final ''languages'' =
           js_or (lookup extracted ''languages'') (lookup draft ''languages'')"
    and "k \<in> {''email'', ''phone'', ''linkedin''} \<Longrightarrow> truthy (lookup extracted k) \<Longrightarrow>
           isObject (lookup draft ''contact'') \<Longrightarrow>
           readProp (lookup final ''contact'') k = lookup extracted k"
    and "k \<in> {''email'', ''phone'', ''linkedin''} \<Longrightarrow> \<not> truthy (lookup extracted k) \<Longrightarrow>
           isObject (lookup draft ''contact'') \<Longrightarrow>
           readProp (lookup final ''contact'') k = readProp (lookup draft ''contact'') k"
    and "isObject (lookup final ''contact'') = isObject (lookup draft ''contact'')"
proof -
  let ?d0 = "assign ''name'' (lookup extracted ''name'') draft"
  obtain c1 c2 c3 where
    c1: "overwriteContact extracted ''email'' ?d0 = Inr c1" and
    c2: "overwriteContact extracted ''phone'' c1 = Inr c2" and
    c3: "overwriteContact extracted ''linkedin'' c2 = Inr c3" and
    fin: "final = assign ''languages''
            (js_or (lookup extracted ''languages'')
               (lookup (assign ''education''
                  (js_or (lookup extracted ''education'') (lookup c3 ''education'')) c3) ''languages''))
            (assign ''education''
               (js_or (lookup extracted ''education'') (lookup c3 ''education'')) c3)"
    using assms by (auto simp: finalValidation_def Let_def split: sum.splits)
  note r1 = overwriteContact_result [OF c1]
  note r2 = overwriteContact_result [OF c2]
  note r3 = overwriteContact_result [OF c3]
  have keep: "\<And>k'. k' \<noteq> ''contact'' \<Longrightarrow> lookup c3 k' = lookup ?d0 k'"
    using r1 r2 r3 by simp
  show "lookup final ''name'' = lookup extracted ''name''"
    using keep [of "''name''"] by (simp add: fin lookup_assign)
  show "lookup final ''education'' =
           js_or (lookup extracted ''education'') (lookup draft ''education'')"
    using keep [of "''education''"] by (simp add: fin lookup_assign)
  show "lookup final ''languages'' =
           js_or (lookup extracted ''languages'') (lookup draft ''languages'')"
    using keep [of "''languages''"] by (simp add: fin lookup_assign)
  have fc: "lookup final ''contact'' = lookup c3 ''contact''"
    by (simp add: fin lookup_assign)
  have d0: "lookup ?d0 ''contact'' = lookup draft ''contact''"
    by (simp add: lookup_assign)
  have step: "\<And>k c c' k'. overwriteContact extracted k c = Inr c' \<Longrightarrow>
      isObject (lookup c' ''contact'') = isObject (lookup c ''contact'') \<and>
      (isObject (lookup c ''contact'') \<longrightarrow>
         readProp (lookup c' ''contact'') k' =
           (if k' = k \<and> truthy (lookup extracted k) then lookup extracted k
            else readProp (lookup c ''contact'') k'))"
  proof -
    fix k c c' k'
    assume oc: "overwriteContact extracted k c = Inr c'"
    show "isObject (lookup c' ''contact'') = isObject (lookup c ''contact'') \<and>
      (isObject (lookup c ''contact'') \<longrightarrow>
         readProp (lookup c' ''contact'') k' =
           (if k' = k \<and> truthy (lookup extracted k) then lookup extracted k
            else readProp (lookup c ''contact'') k'))"
    proof (cases "truthy (lookup extracted k)")
      case True
      then have "setProp (lookup c ''contact'') k (lookup extracted k) = Inr (lookup c' ''contact'')"
        using overwriteContact_result [OF oc] by simp
      from setProp_read [OF this, of k'] True show ?thesis by auto
    next
      case False
      then have "c' = c" using overwriteContact_result [OF oc] by simp
      then show ?thesis using False by simp
    qed
  qed
  note s1 = step [OF c1]
  note s2 = step [OF c2]
  note s3 = step [OF c3]
  show "isObject (lookup final ''contact'') = isObject (lookup draft ''contact'')"
    using s1 s2 s3 fc d0 by simp
  have chain: "\<And>k'. isObject (lookup draft ''contact'') \<Longrightarrow>
      readProp (lookup final ''contact'') k' =
        (if k' = ''linkedin'' \<and> truthy (lookup extracted ''linkedin'') then lookup extracted ''linkedin''
         else if k' = ''phone'' \<and> truthy (lookup extracted ''phone'') then lookup extracted ''phone''
         else if k' = ''email'' \<and> truthy (lookup extracted ''email'') then lookup extracted ''email''
         else readProp (lookup draft ''contact'') k')"
  proof -
    fix k'
    assume ob: "isObject (lookup draft ''contact'')"
    have o0: "isObject (lookup ?d0 ''contact'')" using ob d0 by simp
    have o1: "isObject (lookup c1 ''contact'')" using s1 o0 by simp
    have o2: "isObject (lookup c2 ''contact'')" using s2 o1 by simp
    have e1: "readProp (lookup c1 ''contact'') k' =
        (if k' = ''email'' \<and> truthy (lookup extracted ''email'') then lookup extracted ''email''
         else readProp (lookup draft ''contact'') k')"
      using s1 [of k'] o0 d0 by simp
    have e2: "readProp (lookup c2 ''contact'') k' =
        (if k' = ''phone'' \<and> truthy (lookup extracted ''phone'') then lookup extracted ''phone''
         else readProp (lookup c1 ''contact'') k')"
      using s2 [of k'] o1 by simp
    have e3: "readProp (lookup c3 ''contact'') k' =
        (if k' = ''linkedin'' \<and> truthy (lookup extracted ''linkedin'') then lookup extracted ''linkedin''
         else readProp (lookup c2 ''contact'') k')"
      using s3 [of k'] o2 by simp
    show "readProp (lookup final ''contact'') k' =
        (if k' = ''linkedin'' \<and> truthy (lookup extracted ''linkedin'') then lookup extracted ''linkedin''
         else if k' = ''phone'' \<and> truthy (lookup extracted ''phone'') then lookup extracted ''phone''
         else if k' = ''email'' \<and> truthy (lookup extracted ''email'') then lookup extracted ''email''
         else readProp (lookup draft ''contact'') k')"
      by (simp only: fc e3 e2 e1)
  qed
  show "k \<in> {''email'', ''phone'', ''linkedin''} \<Longrightarrow> truthy (lookup extracted k) \<Longrightarrow>
           isObject (lookup draft ''contact'') \<Longrightarrow>
           readProp (lookup final ''contact'') k = lookup extracted k"
    using chain [of k] by auto
  show "k \<in> {''email'', ''phone'', ''linkedin''} \<Longrightarrow> \<not> truthy (lookup extracted k) \<Longrightarrow>
           isObject (lookup draft ''contact'') \<Longrightarrow>
           readProp (lookup final ''contact'') k = readProp (lookup draft ''contact'') k"
    using chain [of k] by auto
qed

lemma generateCV_success:
  assumes "generateCVWithClaude oc prof cvTexts = (n, Inr res)"
  shows "n = 3 \<and> extractFacts oc prof cvTexts = (1, Inr (extractedData res)) \<and>
         finalValidation (extractedData res) (tailoredDraft oc (extractedData res)) =
           Inr (cvContent res) \<and>
         gapAnalysisStep (extractedData res) (analyzeJob oc) =
           Inr (gapAnalysisSummary (analysisSummary res))"
proof -
  obtain m r where mr: "extractFacts oc prof cvTexts = (m, r)"
    by (cases "extractFacts oc prof cvTexts") auto
  have m1: "r \<noteq> Inl InsufficientDataError \<Longrightarrow> m = 1"
    using mr by (auto simp: extractFacts_def split: if_splits option.splits sum.splits)
  show ?thesis
    using assms mr m1
    by (auto simp: generateCVWithClaude_def Let_def split: sum.splits if_splits)
qed

text \<open>
  C1, as amended. After every run that returns: the name of the final content is the
  extracted name; each of email, phone and linkedin that is truthy (neither missing,
  \<^verbatim>\<open>null\<close> nor empty) in the extracted profile is the same in the contact of the final
  content, provided that contact is an object; education and languages are the extracted
  ones whenever those are truthy, and otherwise stay what the draft had. On the fallback
  path the three contact fields equal the extracted ones in every case, and a missing
  education or languages list becomes the empty list.
\<close>

theorem identity_overwrite:
  assumes "generateCVWithClaude oc prof cvTexts = (n, Inr res)"
  shows "lookup (cvContent res) ''name'' = lookup (extractedData res) ''name'' \<and>
         (\<forall>k\<in>{''email'', ''phone'', ''linkedin''}.
            truthy (lookup (extractedData res) k) \<and> isObject (lookup (cvContent res) ''contact'') \<longrightarrow>
              readProp (lookup (cvContent res) ''contact'') k = lookup (extractedData res) k) \<and>
         (truthy (lookup (extractedData res) ''education'') \<longrightarrow>
            lookup (cvContent res) ''education'' = lookup (extractedData res) ''education'') \<and>
         (truthy (lookup (extractedData res) ''languages'') \<longrightarrow>
            lookup (cvContent res) ''languages'' = lookup (extractedData res) ''languages'') \<and>
         (\<forall>draft. tailoringJson oc = Some draft \<longrightarrow>
            (\<not> truthy (lookup (extractedData res) ''education'') \<longrightarrow>
               lookup (cvContent res) ''education'' = lookup draft ''education'') \<and>
            (\<not> truthy (lookup (extractedData res) ''languages'') \<longrightarrow>
               lookup (cvContent res) ''languages'' = lookup draft ''languages'')) \<and>
         (tailoringJson oc = None \<longrightarrow>
            (\<forall>k\<in>{''email'', ''phone'', ''linkedin''}.
               readProp (lookup (cvContent res) ''contact'') k = lookup (extractedData res) k) \<and>
            lookup (cvContent res) ''education'' =
              js_or (lookup (extractedData res) ''education'') (JArr [] []) \<and>
            lookup (cvContent res) ''languages'' =
              js_or (lookup (extractedData res) ''languages'') (JArr [] []))"
proof -
  let ?ed = "extractedData res"
  let ?draft = "tailoredDraft oc ?ed"
  have fv: "finalValidation ?ed ?draft = Inr (cvContent res)"
    using generateCV_success [OF assms] by simp
  note r = finalValidation_result [OF fv]
  have name: "lookup (cvContent res) ''name'' = lookup ?ed ''name''"
    by (rule r(1))
  have contact: "\<forall>k\<in>{''email'', ''phone'', ''linkedin''}.
            truthy (lookup ?ed k) \<and> isObject (lookup (cvContent res) ''contact'') \<longrightarrow>
              readProp (lookup (cvContent res) ''contact'') k = lookup ?ed k"
    using r(4) r(6) by blast
  have edu: "truthy (lookup ?ed ''education'') \<longrightarrow>
            lookup (cvContent res) ''education'' = lookup ?ed ''education''"
    by (simp add: r(2) js_or_def)
  have lang: "truthy (lookup ?ed ''languages'') \<longrightarrow>
            lookup (cvContent res) ''languages'' = lookup ?ed ''languages''"
    by (simp add: r(3) js_or_def)
  have kept: "\<forall>draft. tailoringJson oc = Some draft \<longrightarrow>
            (\<not> truthy (lookup ?ed ''education'') \<longrightarrow>
               lookup (cvContent res) ''education'' = lookup draft ''education'') \<and>
            (\<not> truthy (lookup ?ed ''languages'') \<longrightarrow>
               lookup (cvContent res) ''languages'' = lookup draft ''languages'')"
    by (simp add: r(2) r(3) js_or_def tailoredDraft_def)
  have fallback: "tailoringJson oc = None \<longrightarrow>
            (\<forall>k\<in>{''email'', ''phone'', ''linkedin''}.
               readProp (lookup (cvContent res) ''contact'') k = lookup ?ed k) \<and>
            lookup (cvContent res) ''education'' = js_or (lookup ?ed ''education'') (JArr [] []) \<and>
            lookup (cvContent res) ''languages'' = js_or (lookup ?ed ''languages'') (JArr [] [])"
  proof
    assume none: "tailoringJson oc = None"
    then have d: "?draft = fallbackCvContent ?ed"
      by (simp add: tailoredDraft_def)
    have dc: "lookup ?draft ''contact'' =
                JObj [(''email'', lookup ?ed ''email''), (''phone'', lookup ?ed ''phone''),
                      (''linkedin'', lookup ?ed ''linkedin''), (''location'', lookup ?ed ''location'')]"
      by (simp add: d fallbackCvContent_def lookup_Cons)
    have ob: "isObject (lookup ?draft ''contact'')"
      by (simp add: dc)
    have "\<forall>k\<in>{''email'', ''phone'', ''linkedin''}.
            readProp (lookup (cvContent res) ''contact'') k = lookup ?ed k"
    proof
      fix k :: string
      assume k: "k \<in> {''email'', ''phone'', ''linkedin''}"
      have same: "readProp (lookup ?draft ''contact'') k = lookup ?ed k"
        using k by (auto simp: dc lookup_Cons)
      show "readProp (lookup (cvContent res) ''contact'') k = lookup ?ed k"
      proof (cases "truthy (lookup ?ed k)")
        case True
        then show ?thesis using r(4) [OF k _ ob] by simp
      next
        case False
        then show ?thesis using r(5) [OF k _ ob] same by simp
      qed
    qed
    moreover have "lookup (cvContent res) ''education'' = js_or (lookup ?ed ''education'') (JArr [] [])"
      by (simp add: r(2) d fallbackCvContent_def lookup_Cons js_or_def)
    moreover have "lookup (cvContent res) ''languages'' = js_or (lookup ?ed ''languages'') (JArr [] [])"
      by (simp add: r(3) d fallbackCvContent_def lookup_Cons js_or_def)
    ultimately show "(\<forall>k\<in>{''email'', ''phone'', ''linkedin''}.
               readProp (lookup (cvContent res) ''contact'') k = lookup ?ed k) \<and>
            lookup (cvContent res) ''education'' = js_or (lookup ?ed ''education'') (JArr [] []) \<and>
            lookup (cvContent res) ''languages'' = js_or (lookup ?ed ''languages'') (JArr [] [])"
      by blast
  qed
  from name contact edu lang kept fallback show ?thesis by blast
qed

text \<open>
  The regression test of the specification: the tailoring response carries another name,
  another email and another education; the overwrite wins on each of them.
\<close>

theorem identity_overwrite_witness:
  "\<exists>res. generateCVWithClaude
            \<lparr>extractionJson =
               Some [(''name'', JStr ''Jane Doe''), (''email'', JStr ''jane@x.com''),
                     (''education'', JArr [JObj [(''degree'', JStr ''MBA''), (''institution'', JStr ''INSEAD''),
                                                (''year'', JStr ''2020'')]] []),
                     (''languages'', JArr [JStr ''English (native)''] [])],
             jobAnalysisJson = None,
             tailoringJson =
               Some [(''name'', JStr ''John Smith''),
                     (''contact'', JObj [(''email'', JStr ''john@y.com''), (''phone'', JNull)]),
                     (''education'', JArr [] []),
                     (''languages'', JArr [JStr ''French''] [])],
             coverLetterJson = None\<rparr>
            None [\<lparr>cv_filename = ''cv.docx'', cv_text = replicate 100 (CHR ''a'')\<rparr>] = (3, Inr res) \<and>
          lookup (cvContent res) ''name'' = JStr ''Jane Doe'' \<and>
          readProp (lookup (cvContent res) ''contact'') ''email'' = JStr ''jane@x.com'' \<and>
          lookup (cvContent res) ''education'' =
            JArr [JObj [(''degree'', JStr ''MBA''), (''institution'', JStr ''INSEAD''),
                        (''year'', JStr ''2020'')]] [] \<and>
          lookup (cvContent res) ''languages'' = JArr [JStr ''English (native)''] []"
proof -
  let ?oc = "\<lparr>extractionJson =
               Some [(''name'', JStr ''Jane Doe''), (''email'', JStr ''jane@x.com''),
                     (''education'', JArr [JObj [(''degree'', JStr ''MBA''), (''institution'', JStr ''INSEAD''),
                                                (''year'', JStr ''2020'')]] []),
                     (''languages'', JArr [JStr ''English (native)''] [])],
             jobAnalysisJson = None,
             tailoringJson =
               Some [(''name'', JStr ''John Smith''),
                     (''contact'', JObj [(''email'', JStr ''john@y.com''), (''phone'', JNull)]),
                     (''education'', JArr [] []),
                     (''languages'', JArr [JStr ''French''] [])],
             coverLetterJson = None\<rparr>"
  let ?cvs = "[\<lparr>cv_filename = ''cv.docx'', cv_text = replicate 100 (CHR ''a'')\<rparr>]"
  let ?ed = "[(''name'', JStr ''Jane Doe''), (''email'', JStr ''jane@x.com''),
              (''education'', JArr [JObj [(''degree'', JStr ''MBA''), (''institution'', JStr ''INSEAD''),
                                         (''year'', JStr ''2020'')]] []),
              (''languages'', JArr [JStr ''English (native)''] [])]"
  have run: "fst (generateCVWithClaude ?oc None ?cvs) = 3 \<and>
             map_sum id extractedData (snd (generateCVWithClaude ?oc None ?cvs)) = Inr ?ed \<and>
             map_sum id (\<lambda>r. isObject (lookup (cvContent r) ''contact''))
               (snd (generateCVWithClaude ?oc None ?cvs)) = Inr True"
    by code_simp
  then obtain res where res: "generateCVWithClaude ?oc None ?cvs = (3, Inr res)"
    and ed: "extractedData res = ?ed"
    and ob: "isObject (lookup (cvContent res) ''contact'')"
    by (cases "generateCVWithClaude ?oc None ?cvs"; cases "snd (generateCVWithClaude ?oc None ?cvs)")
       auto
  have e: "lookup ?ed ''name'' = JStr ''Jane Doe''"
          "lookup ?ed ''email'' = JStr ''jane@x.com''"
          "lookup ?ed ''education'' = JArr [JObj [(''degree'', JStr ''MBA''), (''institution'', JStr ''INSEAD''),
                        (''year'', JStr ''2020'')]] []"
          "lookup ?ed ''languages'' = JArr [JStr ''English (native)''] []"
    by (simp_all add: lookup_Cons)
  show ?thesis
    using identity_overwrite [OF res] res ed ob e by simp
qed

text \<open>
  The claim as stated fails: the extracted email is the empty string (not \<^verbatim>\<open>null\<close>) and the
  extracted education is \<^verbatim>\<open>null\<close>, the tailoring response carries an email and an
  education of its own, and both survive in the final content of a run that succeeds.
\<close>

theorem identity_overwrite_counterexample:
  "generateCVWithClaude
     \<lparr>extractionJson =
        Some [(''name'', JStr ''Jane Doe''), (''email'', JStr ''''), (''education'', JNull)],
      jobAnalysisJson = None,
      tailoringJson =
        Some [(''name'', JStr ''John Smith''),
              (''contact'', JObj [(''email'', JStr ''john@y.com'')]),
              (''education'', JArr [JObj [(''degree'', JStr ''PhD''), (''institution'', JStr ''MIT'')]] [])],
      coverLetterJson = None\<rparr>
     None [\<lparr>cv_filename = ''cv.docx'', cv_text = replicate 100 (CHR ''a'')\<rparr>] =
   (3, Inr \<lparr>cvContent =
              [(''name'', JStr ''Jane Doe''),
               (''contact'', JObj [(''email'', JStr ''john@y.com'')]),
               (''education'', JArr [JObj [(''degree'', JStr ''PhD''), (''institution'', JStr ''MIT'')]] []),
               (''languages'', JUndefined)],
            analysisSummary =
              \<lparr>jobAnalysisTitle = JStr ''Position'',
               gapAnalysisSummary =
                 \<lparr>matchedRequired = [], missingRequired = [], matchedPreferred = [],
                  matchPercentage = 70\<rparr>\<rparr>,
            extractedData =
              [(''name'', JStr ''Jane Doe''), (''email'', JStr ''''), (''education'', JNull)]\<rparr>)"
  by code_simp

section \<open>Well-typed responses do not throw\<close>

lemma isText_prints: "isText v \<Longrightarrow> \<not> toStringThrows v"
  by (cases v) auto

lemma textOrMissing_prints: "textOrMissing v \<Longrightarrow> \<not> toStringThrows v"
  by (cases v) (auto simp: textOrMissing_def)

lemma or_text_prints: "\<not> toStringThrows v \<Longrightarrow> \<not> toStringThrows (js_or v (JStr d))"
  by (simp add: js_or_def)

lemma primitive_prints: "\<not> isObject v \<Longrightarrow> \<not> toStringThrows v"
  by (cases v) auto

lemma textOrMissing_or: "textOrMissing v \<Longrightarrow> \<exists>t. js_or v (JStr d) = JStr t"
  by (cases v) (auto simp: textOrMissing_def js_or_def)

lemma strings_join: "list_all isText xs \<Longrightarrow> \<not> joinThrows xs"
  by (induction xs) (auto simp: isText_prints)

lemma strings_asStrings: "list_all isText xs \<Longrightarrow> \<exists>ss. asStrings xs = Inr ss"
proof (induction xs)
  case Nil
  then show ?case by simp
next
  case (Cons x xs)
  then obtain ss where "asStrings xs = Inr ss" by auto
  moreover obtain s where "x = JStr s" using Cons.prems by (cases x) auto
  ultimately show ?case by simp
qed

lemma list_all_take: "list_all P xs \<Longrightarrow> list_all P (take n xs)"
  by (auto simp: list_all_iff dest: in_set_takeD)

lemma stringsOrMissing_stringArray: "stringsOrMissing v \<Longrightarrow> \<exists>ss. stringArray v = Inr ss"
  by (cases v) (auto simp: stringsOrMissing_def stringArray_def strings_asStrings)

lemma stringsOrMissing_array:
  assumes "stringsOrMissing v"
  shows "isArray (js_or v (JArr [] []))"
    and "\<not> joinThrows (take n (elements (js_or v (JArr [] []))))"
  using assms
  by (cases v; auto simp: stringsOrMissing_def js_or_def strings_join list_all_take)+

lemma stringsOrMissing_shape: "stringsOrMissing v \<Longrightarrow> nullish v \<or> isArray v"
  by (auto simp: stringsOrMissing_def)

lemma wellTypedExperience_builds:
  assumes "wellTypedExperience entry"
  shows "experiencePartBuilds entry"
proof -
  obtain fs where e: "entry = JObj fs"
    and t: "textOrMissing (lookup fs ''title'')"
    and a: "stringsOrMissing (lookup fs ''achievements'')"
    using assms by (cases entry) (auto simp: wellTypedExperience_def)
  have tj: "\<not> joinThrows [lookup fs ''title'']"
    using textOrMissing_prints [OF t] by simp
  show ?thesis
  proof (cases "nullish (lookup fs ''achievements'')")
    case True
    then show ?thesis using tj by (simp add: experiencePartBuilds_def e)
  next
    case False
    then have "isArray (lookup fs ''achievements'')"
      and "list_all isText (elements (lookup fs ''achievements''))"
      using a by (auto simp: stringsOrMissing_def)
    then show ?thesis
      using False tj
      by (simp add: experiencePartBuilds_def e Let_def strings_join list_all_take)
  qed
qed

lemma wellTypedProfile_name:
  assumes "wellTypedProfile extracted"
  shows "\<exists>nm. lookup extracted ''name'' = JStr nm"
  using assms by (cases "lookup extracted ''name''") (auto simp: wellTypedProfile_def)

lemma wellTypedProfile_skills:
  assumes "wellTypedProfile extracted"
  shows "\<exists>skills. stringArray (lookup extracted ''skills'') = Inr skills"
  using assms by (simp add: wellTypedProfile_def stringsOrMissing_stringArray)

lemma wellTypedProfile_summary:
  assumes "wellTypedProfile extracted"
  shows "\<not> profileSummaryThrows extracted"
proof -
  have "\<not> toStringThrows (lookup extracted ''name'')"
    using assms by (simp add: wellTypedProfile_def isText_prints)
  moreover have "\<not> toStringThrows (js_or (lengthProp (lookup extracted ''skills'')) (JNum 0))"
    using assms by (intro count_prints stringsOrMissing_shape) (simp add: wellTypedProfile_def)
  moreover have "\<not> toStringThrows (js_or (lengthProp (lookup extracted ''experience'')) (JNum 0))"
    using assms by (intro count_prints) (auto simp: wellTypedProfile_def)
  ultimately show ?thesis
    by (simp add: profileSummaryThrows_def)
qed

lemma wellTypedProfile_prompt:
  assumes "wellTypedProfile extracted"
  shows "\<not> tailoringPromptThrows extracted"
  using assms
  by (simp add: wellTypedProfile_def tailoringPromptThrows_def isText_prints textOrMissing_prints)

lemma wellTypedProfile_topSkills:
  assumes "wellTypedProfile extracted"
  shows "\<not> topSkillsThrows extracted"
  using assms stringsOrMissing_shape [of "lookup extracted ''skills''"]
  by (auto simp: wellTypedProfile_def topSkillsThrows_def)

lemma wellTypedProfile_letter:
  assumes "wellTypedProfile extracted"
  shows "coverLetterPromptBuilds extracted"
proof -
  have n: "\<not> toStringThrows (js_or (lookup extracted ''name'') (JStr ''Candidate''))"
    using assms by (simp add: wellTypedProfile_def isText_prints or_text_prints)
  have c: "\<not> toStringThrows (js_or (lookup extracted ''currentTitle'') (JStr ''Professional''))"
    using assms by (simp add: wellTypedProfile_def textOrMissing_prints or_text_prints)
  have y: "\<not> toStringThrows (js_or (lookup extracted ''yearsExperience'') (JStr ''Several years''))"
    using assms by (simp add: wellTypedProfile_def primitive_prints or_text_prints)
  have s: "stringsOrMissing (lookup extracted ''skills'')"
    using assms by (simp add: wellTypedProfile_def)
  have e: "isArray (js_or (lookup extracted ''experience'') (JArr [] [])) \<and>
           list_all experiencePartBuilds
             (take 2 (elements (js_or (lookup extracted ''experience'') (JArr [] []))))"
  proof (cases "nullish (lookup extracted ''experience'')")
    case True
    then show ?thesis by (cases "lookup extracted ''experience''") (auto simp: js_or_def)
  next
    case False
    then have arr: "isArray (lookup extracted ''experience'')"
      and all: "list_all wellTypedExperience (elements (lookup extracted ''experience''))"
      using assms by (auto simp: wellTypedProfile_def)
    have "list_all experiencePartBuilds (elements (lookup extracted ''experience''))"
      using all by (auto simp: list_all_iff wellTypedExperience_builds)
    then show ?thesis
      using arr by (cases "lookup extracted ''experience''") (auto simp: js_or_def list_all_take)
  qed
  show ?thesis
    using n c y e stringsOrMissing_array [OF s]
    by (simp add: coverLetterPromptBuilds_def Let_def)
qed

lemma fallbackJobRequirements_typed: "wellTypedJob fallbackJobRequirements"
  by (simp add: wellTypedJob_def fallbackJobRequirements_def lookup_Cons lookup_Nil
        textOrMissing_def stringsOrMissing_def)

lemma analyzeJob_typed:
  assumes "jobAnalysisJson oc = None \<or> (\<exists>jr. jobAnalysisJson oc = Some jr \<and> wellTypedJob jr)"
  shows "wellTypedJob (analyzeJob oc)"
  using assms fallbackJobRequirements_typed by (auto simp: analyzeJob_def)

lemma wellTypedJob_header: "wellTypedJob jr \<Longrightarrow> \<not> jobHeaderThrows jr"
  by (simp add: wellTypedJob_def jobHeaderThrows_def textOrMissing_prints or_text_prints)

lemma wellTypedJob_title:
  "wellTypedJob jr \<Longrightarrow> \<exists>t. js_or (lookup jr ''jobTitle'') (JStr ''Position'') = JStr t"
  by (simp add: wellTypedJob_def textOrMissing_or)

lemma wellTyped_gap:
  assumes "wellTypedProfile extracted" and "wellTypedJob jr"
  shows "\<exists>gap. gapAnalysisStep extracted jr = Inr gap"
proof -
  obtain skills where s: "stringArray (lookup extracted ''skills'') = Inr skills"
    using wellTypedProfile_skills [OF assms(1)] by blast
  obtain r where r: "stringArray (lookup jr ''requiredSkills'') = Inr r"
    using assms(2) stringsOrMissing_stringArray [of "lookup jr ''requiredSkills''"]
    by (auto simp: wellTypedJob_def)
  obtain p where p: "stringArray (lookup jr ''preferredSkills'') = Inr p"
    using assms(2) stringsOrMissing_stringArray [of "lookup jr ''preferredSkills''"]
    by (auto simp: wellTypedJob_def)
  show ?thesis
    using gapAnalysisStep_typed [OF s r p] by blast
qed

section \<open>Runs of the pipeline after the extraction\<close>

lemma finalValidation_total:
  assumes "\<not> (nullish (lookup draft ''contact'') \<and>
              (truthy (lookup extracted ''email'') \<or> truthy (lookup extracted ''phone'') \<or>
               truthy (lookup extracted ''linkedin'')))"
  shows "\<exists>final. finalValidation extracted draft = Inr final"
  using assms finalValidation_fails [of extracted draft] finalValidation_cases [of extracted draft]
  by blast

lemma fallback_contact: "isObject (lookup (fallbackCvContent extracted) ''contact'')"
  by (simp add: fallbackCvContent_def lookup_Cons)

lemma finalValidation_fallback:
  "\<exists>final. finalValidation extracted (fallbackCvContent extracted) = Inr final"
proof -
  have "\<not> nullish (lookup (fallbackCvContent extracted) ''contact'')"
    using fallback_contact [of extracted]
    by (cases "lookup (fallbackCvContent extracted) ''contact''") auto
  then show ?thesis by (intro finalValidation_total) simp
qed

lemma draft_contact:
  assumes "tailoringJson oc = None \<or>
           (\<exists>draft. tailoringJson oc = Some draft \<and> \<not> nullish (lookup draft ''contact''))"
  shows "\<not> nullish (lookup (tailoredDraft oc extracted) ''contact'')"
proof (cases "tailoringJson oc")
  case None
  then have "tailoredDraft oc extracted = fallbackCvContent extracted"
    by (simp add: tailoredDraft_def)
  then show ?thesis
    using fallback_contact [of extracted]
    by (cases "lookup (fallbackCvContent extracted) ''contact''") auto
next
  case (Some draft)
  then show ?thesis using assms by (auto simp: tailoredDraft_def)
qed

lemma generateCV_runs:
  assumes "extractFacts oc prof cvTexts = (n, Inr extracted)"
      and "\<not> profileSummaryThrows extracted"
      and "\<not> jobHeaderThrows (analyzeJob oc)"
      and "gapAnalysisStep extracted (analyzeJob oc) = Inr gap"
      and "\<not> tailoringPromptThrows extracted"
      and "finalValidation extracted (tailoredDraft oc extracted) = Inr final"
      and "\<not> topSkillsThrows extracted"
  shows "generateCVWithClaude oc prof cvTexts =
           (3, Inr \<lparr>cvContent = final,
                    analysisSummary =
                      \<lparr>jobAnalysisTitle = js_or (lookup (analyzeJob oc) ''jobTitle'') (JStr ''Position''),
                       gapAnalysisSummary = gap\<rparr>,
                    extractedData = extracted\<rparr>)"
  using assms by (simp add: generateCVWithClaude_def Let_def)

lemma generateCV_overwrite_throws:
  assumes "extractFacts oc prof cvTexts = (n, Inr extracted)"
      and "\<not> profileSummaryThrows extracted"
      and "\<not> jobHeaderThrows (analyzeJob oc)"
      and "gapAnalysisStep extracted (analyzeJob oc) = Inr gap"
      and "\<not> tailoringPromptThrows extracted"
      and "finalValidation extracted (tailoredDraft oc extracted) = Inl e"
  shows "generateCVWithClaude oc prof cvTexts = (3, Inl e)"
  using assms by (simp add: generateCVWithClaude_def Let_def)

text \<open>A well-typed profile and well-typed job requirements take the run to the overwrite,
  and the result of the overwrite is the result of the run.\<close>

lemma generateCV_typed:
  assumes "extractFacts oc prof cvTexts = (n, Inr extracted)"
      and "wellTypedProfile extracted"
      and "jobAnalysisJson oc = None \<or> (\<exists>jr. jobAnalysisJson oc = Some jr \<and> wellTypedJob jr)"
  shows "\<exists>gap. gapAnalysisStep extracted (analyzeJob oc) = Inr gap \<and>
           (\<forall>e. finalValidation extracted (tailoredDraft oc extracted) = Inl e \<longrightarrow>
                  generateCVWithClaude oc prof cvTexts = (3, Inl e)) \<and>
           (\<forall>final. finalValidation extracted (tailoredDraft oc extracted) = Inr final \<longrightarrow>
                  generateCVWithClaude oc prof cvTexts =
                    (3, Inr \<lparr>cvContent = final,
                             analysisSummary =
                               \<lparr>jobAnalysisTitle =
                                  js_or (lookup (analyzeJob oc) ''jobTitle'') (JStr ''Position''),
                                gapAnalysisSummary = gap\<rparr>,
                             extractedData = extracted\<rparr>))"
proof -
  have j: "wellTypedJob (analyzeJob oc)"
    using assms(3) by (rule analyzeJob_typed)
  obtain gap where g: "gapAnalysisStep extracted (analyzeJob oc) = Inr gap"
    using wellTyped_gap [OF assms(2) j] by blast
  note s = wellTypedProfile_summary [OF assms(2)]
  note h = wellTypedJob_header [OF j]
  note p = wellTypedProfile_prompt [OF assms(2)]
  note t = wellTypedProfile_topSkills [OF assms(2)]
  show ?thesis
    using g generateCV_overwrite_throws [OF assms(1) s h g p]
          generateCV_runs [OF assms(1) s h g p _ t]
    by blast
qed

text \<open>
  Responses that are not of these types make the conversions throw. A name that is an
  object with a \<^verbatim>\<open>toString\<close> member passes the check of the name and throws in the first
  progress message, after one call; a company of that shape throws in the message that
  prints the job, and an email of that shape in the tailoring prompt, after two calls;
  skills that are the number 0 pass the gap analysis and the overwrite and throw in
  \<^verbatim>\<open>extractedData.skills?.slice(0, 8)\<close>, after three calls.
\<close>

lemma conversion_throws_name:
  "generateCVWithClaude
     \<lparr>extractionJson = Some [(''name'', JObj [(''toString'', JNum 1)])],
      jobAnalysisJson = None, tailoringJson = None, coverLetterJson = None\<rparr>
     None [\<lparr>cv_filename = ''cv.docx'', cv_text = replicate 100 (CHR ''a'')\<rparr>] =
   (1, Inl TypeError)"
  by code_simp

lemma conversion_throws_company:
  "generateCVWithClaude
     \<lparr>extractionJson = Some [(''name'', JStr ''Jane Doe'')],
      jobAnalysisJson = Some [(''company'', JObj [(''toString'', JNum 1)])],
      tailoringJson = None, coverLetterJson = None\<rparr>
     None [\<lparr>cv_filename = ''cv.docx'', cv_text = replicate 100 (CHR ''a'')\<rparr>] =
   (2, Inl TypeError)"
  by code_simp

lemma conversion_throws_email:
  "generateCVWithClaude
     \<lparr>extractionJson =
        Some [(''name'', JStr ''Jane Doe''), (''email'', JObj [(''toString'', JNum 1)])],
      jobAnalysisJson = None,
      tailoringJson = Some [(''name'', JStr ''Jane Doe'')],
      coverLetterJson = None\<rparr>
     None [\<lparr>cv_filename = ''cv.docx'', cv_text = replicate 100 (CHR ''a'')\<rparr>] =
   (2, Inl TypeError)"
  by code_simp

lemma slice_throws_skills:
  "generateCVWithClaude
     \<lparr>extractionJson =
        Some [(''name'', JStr ''Jane Doe''), (''email'', JStr []), (''skills'', JNum 0)],
      jobAnalysisJson = None,
      tailoringJson = Some [(''name'', JStr ''Jane Doe'')],
      coverLetterJson = None\<rparr>
     None [\<lparr>cv_filename = ''cv.docx'', cv_text = replicate 100 (CHR ''a'')\<rparr>] =
   (3, Inl TypeError)"
  by code_simp

lemma apiGenerate_query_error:
  assumes "mergeSavedProfile env req = Inl e"
  shows "apiGenerate env req st = (st, ErrorEvent e)"
  using assms by (simp add: apiGenerate_def)

lemma apiGenerate_error:
  assumes "mergeSavedProfile env req = Inr (prof, Some cvTexts)"
      and "snd (generateCVWithClaude (outcomes env) prof cvTexts) = Inl e"
  shows "apiGenerate env req st = (st, ErrorEvent e)"
  using assms by (simp add: apiGenerate_def)

text \<open>
  C10, as amended. The overwrite throws a TypeError exactly when the draft has no contact
  (missing or \<^verbatim>\<open>null\<close>) and one of the extracted email, phone and linkedin is truthy (not
  missing, not \<^verbatim>\<open>null\<close> and not empty). Take a request whose saved-profile query returns,
  an extraction that returns a profile of the types of the data model, and job
  requirements that are the fallback or of the types of the data model, so that no
  statement before the overwrite throws. In a run whose tailoring response parses to an
  object without contact: with one of the three fields truthy, \<^verbatim>\<open>generateCVWithClaude\<close>
  throws after its third inference call and the request ends with an error event, the
  store unchanged; with none of them truthy the run returns.
\<close>

theorem overwrite_without_contact:
  assumes "mergeSavedProfile env req = Inr (prof, Some cvTexts)"
      and "extractFacts (outcomes env) prof cvTexts = (1, Inr extracted)"
      and "wellTypedProfile extracted"
      and "jobAnalysisJson (outcomes env) = None \<or>
           (\<exists>jr. jobAnalysisJson (outcomes env) = Some jr \<and> wellTypedJob jr)"
      and "tailoringJson (outcomes env) = Some draft"
      and "nullish (lookup draft ''contact'')"
  shows "(\<forall>d. finalValidation extracted d = Inl TypeError \<longleftrightarrow>
               nullish (lookup d ''contact'') \<and>
               (truthy (lookup extracted ''email'') \<or> truthy (lookup extracted ''phone'') \<or>
                truthy (lookup extracted ''linkedin''))) \<and>
         (truthy (lookup extracted ''email'') \<or> truthy (lookup extracted ''phone'') \<or>
          truthy (lookup extracted ''linkedin'') \<longrightarrow>
            generateCVWithClaude (outcomes env) prof cvTexts = (3, Inl TypeError) \<and>
            apiGenerate env req st = (st, ErrorEvent TypeError)) \<and>
         (\<not> truthy (lookup extracted ''email'') \<and> \<not> truthy (lookup extracted ''phone'') \<and>
          \<not> truthy (lookup extracted ''linkedin'') \<longrightarrow>
            (\<exists>res. generateCVWithClaude (outcomes env) prof cvTexts = (3, Inr res)))"
proof -
  let ?some = "truthy (lookup extracted ''email'') \<or> truthy (lookup extracted ''phone'') \<or>
          truthy (lookup extracted ''linkedin'')"
  let ?gen = "generateCVWithClaude (outcomes env) prof cvTexts"
  have d: "tailoredDraft (outcomes env) extracted = draft"
    using assms(5) by (simp add: tailoredDraft_def)
  obtain gap where
    thr: "\<forall>e. finalValidation extracted (tailoredDraft (outcomes env) extracted) = Inl e \<longrightarrow>
               ?gen = (3, Inl e)"
    and ret: "\<forall>final. finalValidation extracted (tailoredDraft (outcomes env) extracted) = Inr final \<longrightarrow>
               ?gen = (3, Inr \<lparr>cvContent = final,
                              analysisSummary =
                                \<lparr>jobAnalysisTitle =
                                   js_or (lookup (analyzeJob (outcomes env)) ''jobTitle'') (JStr ''Position''),
                                 gapAnalysisSummary = gap\<rparr>,
                              extractedData = extracted\<rparr>)"
    using generateCV_typed [OF assms(2) assms(3) assms(4)] by blast
  have a: "\<forall>d. finalValidation extracted d = Inl TypeError \<longleftrightarrow>
               nullish (lookup d ''contact'') \<and> ?some"
    using finalValidation_fails by blast
  have b: "?some \<longrightarrow>
            ?gen = (3, Inl TypeError) \<and> apiGenerate env req st = (st, ErrorEvent TypeError)"
  proof
    assume ?some
    then have "finalValidation extracted (tailoredDraft (outcomes env) extracted) = Inl TypeError"
      using a assms(6) d by simp
    then have g: "?gen = (3, Inl TypeError)"
      using thr by blast
    then have "snd ?gen = Inl TypeError" by simp
    from apiGenerate_error [OF assms(1) this] g
    show "?gen = (3, Inl TypeError) \<and> apiGenerate env req st = (st, ErrorEvent TypeError)"
      by simp
  qed
  have c: "\<not> truthy (lookup extracted ''email'') \<and> \<not> truthy (lookup extracted ''phone'') \<and>
          \<not> truthy (lookup extracted ''linkedin'') \<longrightarrow> (\<exists>res. ?gen = (3, Inr res))"
  proof
    assume "\<not> truthy (lookup extracted ''email'') \<and> \<not> truthy (lookup extracted ''phone'') \<and>
          \<not> truthy (lookup extracted ''linkedin'')"
    then obtain final where "finalValidation extracted (tailoredDraft (outcomes env) extracted) = Inr final"
      using finalValidation_total [of "tailoredDraft (outcomes env) extracted" extracted] by blast
    then show "\<exists>res. ?gen = (3, Inr res)"
      using ret by blast
  qed
  show ?thesis
    by (rule conjI [OF a conjI [OF b c]])
qed

theorem overwrite_without_contact_witness:
  "generateCVWithClaude
     \<lparr>extractionJson = Some [(''name'', JStr ''Jane Doe''), (''email'', JStr ''jane@x.com'')],
      jobAnalysisJson = None,
      tailoringJson = Some [(''name'', JStr ''Jane Doe''), (''summary'', JStr ''Product manager.'')],
      coverLetterJson = None\<rparr>
     None [\<lparr>cv_filename = ''cv.docx'', cv_text = replicate 100 (CHR ''a'')\<rparr>] = (3, Inl TypeError) \<and>
   apiGenerate
     \<lparr>sessionId = ''s1'', storedAt = 1000, sweptAt = 1001,
      outcomes =
        \<lparr>extractionJson = Some [(''name'', JStr ''Jane Doe''), (''email'', JStr ''jane@x.com'')],
         jobAnalysisJson = None,
         tailoringJson = Some [(''name'', JStr ''Jane Doe''), (''summary'', JStr ''Product manager.'')],
         coverLetterJson = None\<rparr>,
      savedProfileQuery = Inr None, insertsSucceed = True,
      renderCV = (\<lambda>c p r. Inr ''docx''), renderCoverLetter = (\<lambda>l c j r. Inr ''docx'')\<rparr>
     \<lparr>reqUserId = None, reqProfile = None,
      reqCvTexts = Some [\<lparr>cv_filename = ''cv.docx'', cv_text = replicate 100 (CHR ''a'')\<rparr>],
      reqJobData = None, reqGenerateCoverLetter = True\<rparr>
     \<lparr>generatedDocs = Map.empty, savedDocuments = []\<rparr> =
   (\<lparr>generatedDocs = Map.empty, savedDocuments = []\<rparr>, ErrorEvent TypeError) \<and>
   (\<exists>res. generateCVWithClaude
     \<lparr>extractionJson = Some [(''name'', JStr ''Jane Doe''), (''email'', JStr [])],
      jobAnalysisJson = None,
      tailoringJson = Some [(''name'', JStr ''Jane Doe''), (''summary'', JStr ''Product manager.'')],
      coverLetterJson = None\<rparr>
     None [\<lparr>cv_filename = ''cv.docx'', cv_text = replicate 100 (CHR ''a'')\<rparr>] = (3, Inr res))"
proof -
  let ?ed = "[(''name'', JStr ''Jane Doe''), (''email'', JStr ''jane@x.com'')]"
  let ?ed2 = "[(''name'', JStr ''Jane Doe''), (''email'', JStr [])]"
  let ?draft = "[(''name'', JStr ''Jane Doe''), (''summary'', JStr ''Product manager.'')]"
  let ?oc = "\<lparr>extractionJson = Some ?ed, jobAnalysisJson = None, tailoringJson = Some ?draft,
              coverLetterJson = None\<rparr>"
  let ?oc2 = "\<lparr>extractionJson = Some ?ed2, jobAnalysisJson = None, tailoringJson = Some ?draft,
              coverLetterJson = None\<rparr>"
  let ?cvs = "[\<lparr>cv_filename = ''cv.docx'', cv_text = replicate 100 (CHR ''a'')\<rparr>]"
  let ?env = "\<lparr>sessionId = ''s1'', storedAt = 1000, sweptAt = 1001, outcomes = ?oc,
      savedProfileQuery = Inr None, insertsSucceed = True,
      renderCV = (\<lambda>c p r. Inr ''docx''), renderCoverLetter = (\<lambda>l c j r. Inr ''docx'')\<rparr>"
  let ?env2 = "\<lparr>sessionId = ''s1'', storedAt = 1000, sweptAt = 1001, outcomes = ?oc2,
      savedProfileQuery = Inr None, insertsSucceed = True,
      renderCV = (\<lambda>c p r. Inr ''docx''), renderCoverLetter = (\<lambda>l c j r. Inr ''docx'')\<rparr>"
  let ?req = "\<lparr>reqUserId = None, reqProfile = None, reqCvTexts = Some ?cvs,
      reqJobData = None, reqGenerateCoverLetter = True\<rparr>"
  let ?st = "\<lparr>generatedDocs = Map.empty, savedDocuments = []\<rparr>"
  have m: "mergeSavedProfile ?env ?req = Inr (None, Some ?cvs)"
          "mergeSavedProfile ?env2 ?req = Inr (None, Some ?cvs)"
    by (simp_all add: mergeSavedProfile_def)
  have x: "extractFacts ?oc None ?cvs = (1, Inr ?ed)"
          "extractFacts ?oc2 None ?cvs = (1, Inr ?ed2)"
    by code_simp+
  have w: "wellTypedProfile ?ed" "wellTypedProfile ?ed2"
    by code_simp+
  have n: "nullish (lookup ?draft ''contact'')"
    by (simp add: lookup_Cons lookup_Nil)
  have t: "truthy (lookup ?ed ''email'')"
    by (simp add: lookup_Cons)
  have f: "\<not> truthy (lookup ?ed2 ''email'')" "\<not> truthy (lookup ?ed2 ''phone'')"
          "\<not> truthy (lookup ?ed2 ''linkedin'')"
    by (simp_all add: lookup_Cons lookup_Nil)
  have a: "generateCVWithClaude ?oc None ?cvs = (3, Inl TypeError) \<and>
           apiGenerate ?env ?req ?st = (?st, ErrorEvent TypeError)"
    using overwrite_without_contact [of ?env ?req None ?cvs ?ed ?draft ?st] m(1) x(1) w(1) n t
    by simp
  have b: "\<exists>res. generateCVWithClaude ?oc2 None ?cvs = (3, Inr res)"
    using overwrite_without_contact [of ?env2 ?req None ?cvs ?ed2 ?draft ?st] m(2) x(2) w(2) n f
    by simp
  from a b show ?thesis by simp
qed

text \<open>
  The claim as stated fails where the only extracted contact field that is not \<^verbatim>\<open>null\<close> is
  an empty string: the draft has no contact, nothing is dereferenced, and the run returns.
\<close>

theorem overwrite_without_contact_counterexample:
  "generateCVWithClaude
     \<lparr>extractionJson =
        Some [(''name'', JStr ''Jane Doe''), (''email'', JStr ''''), (''phone'', JNull),
              (''linkedin'', JNull)],
      jobAnalysisJson = None,
      tailoringJson = Some [(''name'', JStr ''Jane Doe''), (''summary'', JStr ''Product manager.'')],
      coverLetterJson = None\<rparr>
     None [\<lparr>cv_filename = ''cv.docx'', cv_text = replicate 100 (CHR ''a'')\<rparr>] =
   (3, Inr \<lparr>cvContent =
              [(''name'', JStr ''Jane Doe''), (''summary'', JStr ''Product manager.''),
               (''education'', JUndefined), (''languages'', JUndefined)],
            analysisSummary =
              \<lparr>jobAnalysisTitle = JStr ''Position'',
               gapAnalysisSummary =
                 \<lparr>matchedRequired = [], missingRequired = [], matchedPreferred = [],
                  matchPercentage = 70\<rparr>\<rparr>,
            extractedData =
              [(''name'', JStr ''Jane Doe''), (''email'', JStr ''''), (''phone'', JNull),
               (''linkedin'', JNull)]\<rparr>)"
  by code_simp

section \<open>The job analysis fallback\<close>

lemma stringArray_empty: "stringArray (JArr [] []) = Inr []"
  by (simp add: stringArray_def)

text \<open>
  C7. When the job-analysis response does not parse, the job requirements are the object
  with three empty lists, and the progress message that prints the job prints the
  defaults. On it the gap analysis returns (nothing matched, nothing missing, 70 percent)
  for every extracted profile whose skills are an array of strings or missing. For an
  extracted profile of the types of the data model the run then goes on through tailoring
  and returns after its third inference call, whether the tailoring response fails to
  parse as well or parses to a draft that has a contact.
\<close>

theorem job_analysis_fallback:
  assumes "jobAnalysisJson oc = None"
      and "extractFacts oc prof cvTexts = (1, Inr extracted)"
      and "stringArray (lookup extracted ''skills'') = Inr skills"
  shows "analyzeJob oc =
           [(''requiredSkills'', JArr [] []), (''preferredSkills'', JArr [] []),
            (''keywords'', JArr [] [])] \<and>
         gapAnalysisStep extracted (analyzeJob oc) =
           Inr \<lparr>matchedRequired = [], missingRequired = [], matchedPreferred = [],
                matchPercentage = 70\<rparr> \<and>
         \<not> jobHeaderThrows (analyzeJob oc) \<and>
         (wellTypedProfile extracted \<and>
          (tailoringJson oc = None \<or>
           (\<exists>draft. tailoringJson oc = Some draft \<and> \<not> nullish (lookup draft ''contact''))) \<longrightarrow>
            (\<exists>res. generateCVWithClaude oc prof cvTexts = (3, Inr res) \<and>
                   gapAnalysisSummary (analysisSummary res) =
                     \<lparr>matchedRequired = [], missingRequired = [], matchedPreferred = [],
                      matchPercentage = 70\<rparr> \<and>
                   extractedData res = extracted))"
proof -
  have j: "analyzeJob oc =
           [(''requiredSkills'', JArr [] []), (''preferredSkills'', JArr [] []),
            (''keywords'', JArr [] [])]"
    using assms(1) by (simp add: analyzeJob_def fallbackJobRequirements_def)
  have r: "stringArray (lookup (analyzeJob oc) ''requiredSkills'') = Inr []"
    by (simp add: j lookup_Cons stringArray_empty)
  have p: "stringArray (lookup (analyzeJob oc) ''preferredSkills'') = Inr []"
    by (simp add: j lookup_Cons stringArray_empty)
  have g: "gapAnalysisStep extracted (analyzeJob oc) =
           Inr \<lparr>matchedRequired = [], missingRequired = [], matchedPreferred = [],
                matchPercentage = 70\<rparr>"
    using gapAnalysisStep_typed [OF assms(3) r p] by (simp add: matchPercent_def)
  have h: "\<not> jobHeaderThrows (analyzeJob oc)"
    using assms(1) by (intro wellTypedJob_header analyzeJob_typed) simp
  have c: "wellTypedProfile extracted \<and>
          (tailoringJson oc = None \<or>
           (\<exists>draft. tailoringJson oc = Some draft \<and> \<not> nullish (lookup draft ''contact''))) \<longrightarrow>
            (\<exists>res. generateCVWithClaude oc prof cvTexts = (3, Inr res) \<and>
                   gapAnalysisSummary (analysisSummary res) =
                     \<lparr>matchedRequired = [], missingRequired = [], matchedPreferred = [],
                      matchPercentage = 70\<rparr> \<and>
                   extractedData res = extracted)"
  proof
    assume w: "wellTypedProfile extracted \<and>
          (tailoringJson oc = None \<or>
           (\<exists>draft. tailoringJson oc = Some draft \<and> \<not> nullish (lookup draft ''contact'')))"
    then have "\<not> nullish (lookup (tailoredDraft oc extracted) ''contact'')"
      by (intro draft_contact) simp
    then obtain final where fv: "finalValidation extracted (tailoredDraft oc extracted) = Inr final"
      using finalValidation_total [of "tailoredDraft oc extracted" extracted] by blast
    have s: "\<not> profileSummaryThrows extracted"
      using w by (intro wellTypedProfile_summary) simp
    have q: "\<not> tailoringPromptThrows extracted"
      using w by (intro wellTypedProfile_prompt) simp
    have t: "\<not> topSkillsThrows extracted"
      using w by (intro wellTypedProfile_topSkills) simp
    from generateCV_runs [OF assms(2) s h g q fv t]
    show "\<exists>res. generateCVWithClaude oc prof cvTexts = (3, Inr res) \<and>
                   gapAnalysisSummary (analysisSummary res) =
                     \<lparr>matchedRequired = [], missingRequired = [], matchedPreferred = [],
                      matchPercentage = 70\<rparr> \<and>
                   extractedData res = extracted"
      by simp
  qed
  show ?thesis
    by (rule conjI [OF j conjI [OF g conjI [OF h c]]])
qed

theorem job_analysis_fallback_witness:
  "gapAnalysisStep
     [(''name'', JStr ''Jane Doe''), (''skills'', JArr [JStr ''Agile'', JStr ''SQL''] [])]
     (analyzeJob \<lparr>extractionJson =
                    Some [(''name'', JStr ''Jane Doe''), (''skills'', JArr [JStr ''Agile'', JStr ''SQL''] [])],
                  jobAnalysisJson = None, tailoringJson = None, coverLetterJson = None\<rparr>) =
     Inr \<lparr>matchedRequired = [], missingRequired = [], matchedPreferred = [], matchPercentage = 70\<rparr> \<and>
   (\<exists>res. generateCVWithClaude
            \<lparr>extractionJson =
               Some [(''name'', JStr ''Jane Doe''), (''skills'', JArr [JStr ''Agile'', JStr ''SQL''] [])],
             jobAnalysisJson = None, tailoringJson = None, coverLetterJson = None\<rparr>
            None [\<lparr>cv_filename = ''cv.docx'', cv_text = replicate 100 (CHR ''a'')\<rparr>] = (3, Inr res))"
proof -
  let ?ed = "[(''name'', JStr ''Jane Doe''), (''skills'', JArr [JStr ''Agile'', JStr ''SQL''] [])]"
  let ?oc = "\<lparr>extractionJson = Some ?ed, jobAnalysisJson = None, tailoringJson = None,
              coverLetterJson = None\<rparr>"
  let ?cvs = "[\<lparr>cv_filename = ''cv.docx'', cv_text = replicate 100 (CHR ''a'')\<rparr>]"
  have x: "extractFacts ?oc None ?cvs = (1, Inr ?ed)"
    by code_simp
  have s: "stringArray (lookup ?ed ''skills'') = Inr [''Agile'', ''SQL'']"
    by code_simp
  have w: "wellTypedProfile ?ed"
    by code_simp
  show ?thesis
    using job_analysis_fallback [of ?oc None ?cvs ?ed "[''Agile'', ''SQL'']", OF _ x s] w
    by auto
qed

section \<open>Which failures end the request\<close>

lemma sanitizeFilename_string: "\<exists>f. sanitizeFilename (JStr s) = Inr f"
  by (simp add: sanitizeFilename_def js_or_def)

lemma sanitizeFilename_name: "\<exists>f. sanitizeFilename (js_or (JStr s) (JStr d)) = Inr f"
  by (simp add: sanitizeFilename_def js_or_def)

lemma apiGenerate_render_error:
  assumes "mergeSavedProfile env req = Inr (prof, Some cvTexts)"
      and "snd (generateCVWithClaude (outcomes env) prof cvTexts) = Inr res"
      and "coverLetterIfWanted env req (extractedData res) = Inr letter"
      and "renderCV env (cvContent res) prof (detectRegion (reqJobData req)) = Inl e"
  shows "apiGenerate env req st = (st, ErrorEvent e)"
  using assms by (simp add: apiGenerate_def)

lemma apiGenerate_success:
  assumes "mergeSavedProfile env req = Inr (prof, Some cvTexts)"
      and "snd (generateCVWithClaude (outcomes env) prof cvTexts) = Inr res"
      and "coverLetterIfWanted env req (extractedData res) = Inr letter"
      and "renderCV env (cvContent res) prof (detectRegion (reqJobData req)) = Inr cvBuffer"
      and "sanitizeFilename (js_or (lookup (cvContent res) ''name'') (JStr ''Candidate'')) = Inr safeName"
      and "sanitizeFilename (jobAnalysisTitle (analysisSummary res)) = Inr safeJobTitle"
      and "renderLetterIfAny env req (detectRegion (reqJobData req)) (cvContent res)
             (''CoverLetter_'' @ safeName @ ''_'' @ safeJobTitle @ ''.docx'') letter =
           Inr letterDocument"
  shows "apiGenerate env req st =
           (\<lparr>generatedDocs =
               cleanupOldDocuments (sweptAt env)
                 ((generatedDocs st)(sessionId env \<mapsto>
                    \<lparr>cv = \<lparr>buffer = cvBuffer,
                            filename = ''CV_'' @ safeName @ ''_'' @ safeJobTitle @ ''.docx'',
                            content = cvContent res\<rparr>,
                     coverLetter = letterDocument,
                     createdAt = storedAt env\<rparr>)),
              savedDocuments =
                saveApplication env req (''CV_'' @ safeName @ ''_'' @ safeJobTitle @ ''.docx'')
                  (cvContent res) (savedDocuments st)\<rparr>,
            Complete (sessionId env))"
  using assms by (simp add: apiGenerate_def Let_def)

lemma coverLetterIfWanted_result:
  assumes "coverLetterPromptBuilds extracted"
  shows "coverLetterIfWanted env req extracted =
           Inr (if reqGenerateCoverLetter req
                then Some (case coverLetterJson (outcomes env) of
                             Some letter \<Rightarrow> letter
                           | None \<Rightarrow> fallbackCoverLetter (reqJobData req))
                else None)"
  using assms
  by (simp add: coverLetterIfWanted_def generateCoverLetterWithClaude_def split: option.splits)

lemma renderLetterIfAny_result:
  assumes "\<forall>l. letter = Some l \<longrightarrow> (\<exists>b. renderCoverLetter env l cvc (reqJobData req) reg = Inr b)"
  shows "\<exists>d. renderLetterIfAny env req reg cvc letterFilename letter = Inr d \<and>
              map_option content d = letter"
  using assms by (cases letter) (auto simp: renderLetterIfAny_def)

lemma cleanup_keeps_fresh:
  fixes docs :: store
  assumes "sweptAt env \<le> createdAt entry + 3600000"
  shows "cleanupOldDocuments (sweptAt env) (docs(sid \<mapsto> entry)) sid = Some entry"
  using assms by (simp add: cleanupOldDocuments_def)

text \<open>
  C4, as amended. The inference calls are taken to return a response. Three errors, all
  raised in the extraction stage, end the request with an error event and leave the store
  as it was: \<open>InsufficientDataError\<close>, \<open>NameMissingError\<close> and also \<open>ExtractionParseError\<close>
  (the extraction response does not parse). The request ends in the same way when the
  query for the saved profile of a logged-in user throws, when the request has no
  \<^verbatim>\<open>cvTexts\<close> after the merge with the saved profile, and when the CV renderer throws.

  A parse failure of the job analysis, of the tailoring or of the cover letter, and a
  failure of the two inserts, each degrade in place, under these hypotheses: the
  saved-profile query returns and the request has a \<^verbatim>\<open>cvTexts\<close> array after the merge; the
  extraction returns a profile of the types of the data model; the job analysis fails to
  parse or gives requirements of the types of the data model; the tailoring fails to
  parse or gives a draft whose contact is neither missing nor \<^verbatim>\<open>null\<close>; and the two
  renderers return on the content of the run. Then the request ends with the complete
  event, failing inserts save nothing, and, when the sweep runs within the hour, the
  session that is stored holds the fallback content of the stage that failed.
\<close>

theorem failure_propagation:
  "(mergeSavedProfile env req = Inr (prof, Some cvTexts) \<and>
    insufficientData (userProvidedData prof cvTexts) \<longrightarrow>
      apiGenerate env req st = (st, ErrorEvent InsufficientDataError)) \<and>
   (mergeSavedProfile env req = Inr (prof, Some cvTexts) \<and>
    \<not> insufficientData (userProvidedData prof cvTexts) \<and>
    extractionJson (outcomes env) = None \<longrightarrow>
      apiGenerate env req st = (st, ErrorEvent ExtractionParseError)) \<and>
   (mergeSavedProfile env req = Inr (prof, Some cvTexts) \<and>
    \<not> insufficientData (userProvidedData prof cvTexts) \<and>
    extractionJson (outcomes env) = Some parsed \<and>
    postProcessEducation parsed = Inr extracted \<and> nameMissing extracted \<longrightarrow>
      apiGenerate env req st = (st, ErrorEvent NameMissingError)) \<and>
   (reqUserId req \<noteq> None \<and> savedProfileQuery env = Inl e \<longrightarrow>
      apiGenerate env req st = (st, ErrorEvent e)) \<and>
   (mergeSavedProfile env req = Inr (prof, None) \<longrightarrow>
      apiGenerate env req st = (st, ErrorEvent TypeError)) \<and>
   (mergeSavedProfile env req = Inr (prof, Some cvTexts) \<and>
    snd (generateCVWithClaude (outcomes env) prof cvTexts) = Inr res \<and>
    coverLetterIfWanted env req (extractedData res) = Inr letter \<and>
    renderCV env (cvContent res) prof (detectRegion (reqJobData req)) = Inl e \<longrightarrow>
      apiGenerate env req st = (st, ErrorEvent e)) \<and>
   (mergeSavedProfile env req = Inr (prof, Some cvTexts) \<and>
    extractFacts (outcomes env) prof cvTexts = (1, Inr extracted) \<and>
    wellTypedProfile extracted \<and>
    (jobAnalysisJson (outcomes env) = None \<or>
     (\<exists>jr. jobAnalysisJson (outcomes env) = Some jr \<and> wellTypedJob jr)) \<and>
    (tailoringJson (outcomes env) = None \<or>
     (\<exists>draft. tailoringJson (outcomes env) = Some draft \<and> \<not> nullish (lookup draft ''contact''))) \<and>
    (\<forall>r. snd (generateCVWithClaude (outcomes env) prof cvTexts) = Inr r \<longrightarrow>
       (\<exists>b. renderCV env (cvContent r) prof (detectRegion (reqJobData req)) = Inr b) \<and>
       (\<forall>l. coverLetterIfWanted env req (extractedData r) = Inr (Some l) \<longrightarrow>
          (\<exists>b. renderCoverLetter env l (cvContent r) (reqJobData req)
                 (detectRegion (reqJobData req)) = Inr b))) \<longrightarrow>
      snd (apiGenerate env req st) = Complete (sessionId env) \<and>
      (\<not> insertsSucceed env \<longrightarrow> savedDocuments (fst (apiGenerate env req st)) = savedDocuments st) \<and>
      (sweptAt env \<le> storedAt env + 3600000 \<longrightarrow>
         (\<exists>entry. generatedDocs (fst (apiGenerate env req st)) (sessionId env) = Some entry \<and>
            createdAt entry = storedAt env \<and>
            (tailoringJson (outcomes env) = None \<longrightarrow>
               finalValidation extracted (fallbackCvContent extracted) = Inr (content (cv entry))) \<and>
            (reqGenerateCoverLetter req \<and> coverLetterJson (outcomes env) = None \<longrightarrow>
               map_option content (coverLetter entry) = Some (fallbackCoverLetter (reqJobData req))))))"
proof -
  let ?oc = "outcomes env"
  let ?gen = "generateCVWithClaude ?oc prof cvTexts"
  let ?reg = "detectRegion (reqJobData req)"
  have A: "mergeSavedProfile env req = Inr (prof, Some cvTexts) \<and>
    insufficientData (userProvidedData prof cvTexts) \<longrightarrow>
      apiGenerate env req st = (st, ErrorEvent InsufficientDataError)"
  proof
    assume h: "mergeSavedProfile env req = Inr (prof, Some cvTexts) \<and>
               insufficientData (userProvidedData prof cvTexts)"
    then have "extractFacts ?oc prof cvTexts = (0, Inl InsufficientDataError)"
      by (simp add: extractFacts_def)
    then have "snd ?gen = Inl InsufficientDataError"
      using generateCV_extraction_error by simp
    then show "apiGenerate env req st = (st, ErrorEvent InsufficientDataError)"
      using h apiGenerate_error by blast
  qed
  have B: "mergeSavedProfile env req = Inr (prof, Some cvTexts) \<and>
    \<not> insufficientData (userProvidedData prof cvTexts) \<and>
    extractionJson (outcomes env) = None \<longrightarrow>
      apiGenerate env req st = (st, ErrorEvent ExtractionParseError)"
  proof
    assume h: "mergeSavedProfile env req = Inr (prof, Some cvTexts) \<and>
            \<not> insufficientData (userProvidedData prof cvTexts) \<and>
            extractionJson ?oc = None"
    then have "extractFacts ?oc prof cvTexts = (1, Inl ExtractionParseError)"
      by (simp add: extractFacts_def)
    then have "snd ?gen = Inl ExtractionParseError"
      using generateCV_extraction_error by simp
    then show "apiGenerate env req st = (st, ErrorEvent ExtractionParseError)"
      using h apiGenerate_error by blast
  qed
  have C: "mergeSavedProfile env req = Inr (prof, Some cvTexts) \<and>
    \<not> insufficientData (userProvidedData prof cvTexts) \<and>
    extractionJson (outcomes env) = Some parsed \<and>
    postProcessEducation parsed = Inr extracted \<and> nameMissing extracted \<longrightarrow>
      apiGenerate env req st = (st, ErrorEvent NameMissingError)"
  proof
    assume h: "mergeSavedProfile env req = Inr (prof, Some cvTexts) \<and>
            \<not> insufficientData (userProvidedData prof cvTexts) \<and>
            extractionJson ?oc = Some parsed \<and>
            postProcessEducation parsed = Inr extracted \<and> nameMissing extracted"
    then have "extractFacts ?oc prof cvTexts = (1, Inl NameMissingError)"
      by (simp add: extractFacts_def)
    then have "snd ?gen = Inl NameMissingError"
      using generateCV_extraction_error by simp
    then show "apiGenerate env req st = (st, ErrorEvent NameMissingError)"
      using h apiGenerate_error by blast
  qed
  have E: "reqUserId req \<noteq> None \<and> savedProfileQuery env = Inl e \<longrightarrow>
      apiGenerate env req st = (st, ErrorEvent e)"
  proof
    assume "reqUserId req \<noteq> None \<and> savedProfileQuery env = Inl e"
    then have "mergeSavedProfile env req = Inl e"
      by (auto simp: mergeSavedProfile_def)
    then show "apiGenerate env req st = (st, ErrorEvent e)"
      by (rule apiGenerate_query_error)
  qed
  have G: "mergeSavedProfile env req = Inr (prof, None) \<longrightarrow>
      apiGenerate env req st = (st, ErrorEvent TypeError)"
    by (simp add: apiGenerate_def)
  have F: "mergeSavedProfile env req = Inr (prof, Some cvTexts) \<and>
    snd (generateCVWithClaude (outcomes env) prof cvTexts) = Inr res \<and>
    coverLetterIfWanted env req (extractedData res) = Inr letter \<and>
    renderCV env (cvContent res) prof (detectRegion (reqJobData req)) = Inl e \<longrightarrow>
      apiGenerate env req st = (st, ErrorEvent e)"
    using apiGenerate_render_error by blast
  have D: "mergeSavedProfile env req = Inr (prof, Some cvTexts) \<and>
    extractFacts (outcomes env) prof cvTexts = (1, Inr extracted) \<and>
    wellTypedProfile extracted \<and>
    (jobAnalysisJson (outcomes env) = None \<or>
     (\<exists>jr. jobAnalysisJson (outcomes env) = Some jr \<and> wellTypedJob jr)) \<and>
    (tailoringJson (outcomes env) = None \<or>
     (\<exists>draft. tailoringJson (outcomes env) = Some draft \<and> \<not> nullish (lookup draft ''contact''))) \<and>
    (\<forall>r. snd (generateCVWithClaude (outcomes env) prof cvTexts) = Inr r \<longrightarrow>
       (\<exists>b. renderCV env (cvContent r) prof (detectRegion (reqJobData req)) = Inr b) \<and>
       (\<forall>l. coverLetterIfWanted env req (extractedData r) = Inr (Some l) \<longrightarrow>
          (\<exists>b. renderCoverLetter env l (cvContent r) (reqJobData req)
                 (detectRegion (reqJobData req)) = Inr b))) \<longrightarrow>
      snd (apiGenerate env req st) = Complete (sessionId env) \<and>
      (\<not> insertsSucceed env \<longrightarrow> savedDocuments (fst (apiGenerate env req st)) = savedDocuments st) \<and>
      (sweptAt env \<le> storedAt env + 3600000 \<longrightarrow>
         (\<exists>entry. generatedDocs (fst (apiGenerate env req st)) (sessionId env) = Some entry \<and>
            createdAt entry = storedAt env \<and>
            (tailoringJson (outcomes env) = None \<longrightarrow>
               finalValidation extracted (fallbackCvContent extracted) = Inr (content (cv entry))) \<and>
            (reqGenerateCoverLetter req \<and> coverLetterJson (outcomes env) = None \<longrightarrow>
               map_option content (coverLetter entry) = Some (fallbackCoverLetter (reqJobData req)))))"
  proof
    assume h: "mergeSavedProfile env req = Inr (prof, Some cvTexts) \<and>
      extractFacts ?oc prof cvTexts = (1, Inr extracted) \<and>
      wellTypedProfile extracted \<and>
      (jobAnalysisJson ?oc = None \<or>
       (\<exists>jr. jobAnalysisJson ?oc = Some jr \<and> wellTypedJob jr)) \<and>
      (tailoringJson ?oc = None \<or>
       (\<exists>draft. tailoringJson ?oc = Some draft \<and> \<not> nullish (lookup draft ''contact''))) \<and>
      (\<forall>r. snd ?gen = Inr r \<longrightarrow>
         (\<exists>b. renderCV env (cvContent r) prof ?reg = Inr b) \<and>
         (\<forall>l. coverLetterIfWanted env req (extractedData r) = Inr (Some l) \<longrightarrow>
            (\<exists>b. renderCoverLetter env l (cvContent r) (reqJobData req) ?reg = Inr b)))"
    then have m: "mergeSavedProfile env req = Inr (prof, Some cvTexts)"
      and x: "extractFacts ?oc prof cvTexts = (1, Inr extracted)"
      and w: "wellTypedProfile extracted"
      and job: "jobAnalysisJson ?oc = None \<or> (\<exists>jr. jobAnalysisJson ?oc = Some jr \<and> wellTypedJob jr)"
      and tl: "tailoringJson ?oc = None \<or>
               (\<exists>draft. tailoringJson ?oc = Some draft \<and> \<not> nullish (lookup draft ''contact''))"
      and rn: "\<forall>r. snd ?gen = Inr r \<longrightarrow>
         (\<exists>b. renderCV env (cvContent r) prof ?reg = Inr b) \<and>
         (\<forall>l. coverLetterIfWanted env req (extractedData r) = Inr (Some l) \<longrightarrow>
            (\<exists>b. renderCoverLetter env l (cvContent r) (reqJobData req) ?reg = Inr b))"
      by blast+
    obtain nm where nm: "lookup extracted ''name'' = JStr nm"
      using wellTypedProfile_name [OF w] by blast
    note cl = wellTypedProfile_letter [OF w]
    obtain t where title: "js_or (lookup (analyzeJob ?oc) ''jobTitle'') (JStr ''Position'') = JStr t"
      using wellTypedJob_title [OF analyzeJob_typed [OF job]] by blast
    have "\<not> nullish (lookup (tailoredDraft ?oc extracted) ''contact'')"
      using tl by (rule draft_contact)
    then obtain final where fv: "finalValidation extracted (tailoredDraft ?oc extracted) = Inr final"
      using finalValidation_total [of "tailoredDraft ?oc extracted" extracted] by blast
    obtain gap where run: "?gen =
        (3, Inr \<lparr>cvContent = final,
                 analysisSummary =
                   \<lparr>jobAnalysisTitle = js_or (lookup (analyzeJob ?oc) ''jobTitle'') (JStr ''Position''),
                    gapAnalysisSummary = gap\<rparr>,
                 extractedData = extracted\<rparr>)"
      using generateCV_typed [OF x w job] fv by blast
    define res where "res = \<lparr>cvContent = final,
                      analysisSummary =
                        \<lparr>jobAnalysisTitle = js_or (lookup (analyzeJob ?oc) ''jobTitle'') (JStr ''Position''),
                         gapAnalysisSummary = gap\<rparr>,
                      extractedData = extracted\<rparr>"
    have gen: "snd ?gen = Inr res"
      using run by (simp add: res_def)
    have rc: "cvContent res = final" and re: "extractedData res = extracted"
      and rt: "jobAnalysisTitle (analysisSummary res) = JStr t"
      using title by (simp_all add: res_def)
    have fname: "lookup final ''name'' = JStr nm"
      using finalValidation_result(1) [OF fv] nm by simp
    obtain safeName where sn:
      "sanitizeFilename (js_or (lookup (cvContent res) ''name'') (JStr ''Candidate'')) = Inr safeName"
      using sanitizeFilename_name [of nm "''Candidate''"] fname rc by auto
    obtain safeJobTitle where sj:
      "sanitizeFilename (jobAnalysisTitle (analysisSummary res)) = Inr safeJobTitle"
      using sanitizeFilename_string [of t] rt by auto
    define letter where "letter = (if reqGenerateCoverLetter req
                  then Some (case coverLetterJson ?oc of
                               Some l \<Rightarrow> l
                             | None \<Rightarrow> fallbackCoverLetter (reqJobData req))
                  else None)"
    have lw: "coverLetterIfWanted env req (extractedData res) = Inr letter"
      using coverLetterIfWanted_result [OF cl, of env req] by (simp add: re letter_def)
    obtain cvBuffer where rv: "renderCV env (cvContent res) prof ?reg = Inr cvBuffer"
      using rn gen by blast
    have "\<forall>l. letter = Some l \<longrightarrow>
            (\<exists>b. renderCoverLetter env l (cvContent res) (reqJobData req) ?reg = Inr b)"
      using rn gen lw by blast
    then obtain letterDocument where
      rl: "renderLetterIfAny env req ?reg (cvContent res)
             (''CoverLetter_'' @ safeName @ ''_'' @ safeJobTitle @ ''.docx'') letter =
           Inr letterDocument"
      and lc: "map_option content letterDocument = letter"
      using renderLetterIfAny_result
              [of letter env "cvContent res" req ?reg
                  "''CoverLetter_'' @ safeName @ ''_'' @ safeJobTitle @ ''.docx''"]
      by blast
    note ran = apiGenerate_success [OF m gen lw rv sn sj rl, of st]
    have X: "snd (apiGenerate env req st) = Complete (sessionId env)"
      by (simp add: ran)
    have Y: "\<not> insertsSucceed env \<longrightarrow> savedDocuments (fst (apiGenerate env req st)) = savedDocuments st"
      by (simp add: ran saveApplication_def split: option.splits)
    have Z: "sweptAt env \<le> storedAt env + 3600000 \<longrightarrow>
         (\<exists>entry. generatedDocs (fst (apiGenerate env req st)) (sessionId env) = Some entry \<and>
            createdAt entry = storedAt env \<and>
            (tailoringJson ?oc = None \<longrightarrow>
               finalValidation extracted (fallbackCvContent extracted) = Inr (content (cv entry))) \<and>
            (reqGenerateCoverLetter req \<and> coverLetterJson ?oc = None \<longrightarrow>
               map_option content (coverLetter entry) = Some (fallbackCoverLetter (reqJobData req))))"
    proof
      assume fresh: "sweptAt env \<le> storedAt env + 3600000"
      let ?entry = "\<lparr>cv = \<lparr>buffer = cvBuffer,
                              filename = ''CV_'' @ safeName @ ''_'' @ safeJobTitle @ ''.docx'',
                              content = cvContent res\<rparr>,
                       coverLetter = letterDocument,
                       createdAt = storedAt env\<rparr>"
      have stored: "generatedDocs (fst (apiGenerate env req st)) (sessionId env) = Some ?entry"
        using fresh cleanup_keeps_fresh [of env ?entry "generatedDocs st" "sessionId env"]
        by (simp add: ran)
      have t: "tailoringJson ?oc = None \<longrightarrow>
                 finalValidation extracted (fallbackCvContent extracted) = Inr (content (cv ?entry))"
        using fv by (auto simp: tailoredDraft_def rc)
      have c: "reqGenerateCoverLetter req \<and> coverLetterJson ?oc = None \<longrightarrow>
                 map_option content (coverLetter ?entry) = Some (fallbackCoverLetter (reqJobData req))"
        by (simp add: lc letter_def)
      from stored t c show "\<exists>entry. generatedDocs (fst (apiGenerate env req st)) (sessionId env) = Some entry \<and>
            createdAt entry = storedAt env \<and>
            (tailoringJson ?oc = None \<longrightarrow>
               finalValidation extracted (fallbackCvContent extracted) = Inr (content (cv entry))) \<and>
            (reqGenerateCoverLetter req \<and> coverLetterJson ?oc = None \<longrightarrow>
               map_option content (coverLetter entry) = Some (fallbackCoverLetter (reqJobData req)))"
        by simp
    qed
    show "snd (apiGenerate env req st) = Complete (sessionId env) \<and>
      (\<not> insertsSucceed env \<longrightarrow> savedDocuments (fst (apiGenerate env req st)) = savedDocuments st) \<and>
      (sweptAt env \<le> storedAt env + 3600000 \<longrightarrow>
         (\<exists>entry. generatedDocs (fst (apiGenerate env req st)) (sessionId env) = Some entry \<and>
            createdAt entry = storedAt env \<and>
            (tailoringJson (outcomes env) = None \<longrightarrow>
               finalValidation extracted (fallbackCvContent extracted) = Inr (content (cv entry))) \<and>
            (reqGenerateCoverLetter req \<and> coverLetterJson (outcomes env) = None \<longrightarrow>
               map_option content (coverLetter entry) = Some (fallbackCoverLetter (reqJobData req)))))"
      by (rule conjI [OF X conjI [OF Y Z]])
  qed
  show ?thesis
    by (rule conjI [OF A conjI [OF B conjI [OF C conjI [OF E conjI [OF G conjI [OF F D]]]]]])
qed

text \<open>
  A logged-in user without documents in the request, whose saved master CV is used: on
  too short a saved CV the request ends with \<open>InsufficientDataError\<close>; when the query for
  the saved profile throws, the request ends with the error of the query; on a long
  enough one, with the job analysis, the tailoring and the cover letter all failing to
  parse and the inserts failing, the request completes and nothing is saved.
\<close>

theorem failure_propagation_witness:
  "apiGenerate
     \<lparr>sessionId = ''s1'', storedAt = 1000, sweptAt = 1001,
      outcomes =
        \<lparr>extractionJson =
           Some [(''name'', JStr ''Jane Doe''), (''skills'', JArr [JStr ''Agile'', JStr ''SQL''] [])],
         jobAnalysisJson = None, tailoringJson = None, coverLetterJson = None\<rparr>,
      savedProfileQuery =
        Inr (Some \<lparr>linkedin_profile_data = None, master_cv_text = Some ''Jane Doe'',
                   master_cv_filename = None\<rparr>),
      insertsSucceed = False,
      renderCV = (\<lambda>c p r. Inr ''docx''), renderCoverLetter = (\<lambda>l c j r. Inr ''docx'')\<rparr>
     \<lparr>reqUserId = Some 7, reqProfile = None, reqCvTexts = None,
      reqJobData = Some \<lparr>rawText = Some ''Backend developer'', title = Some ''Developer'',
                         company = Some ''Acme'', location = Some ''Berlin''\<rparr>,
      reqGenerateCoverLetter = True\<rparr>
     \<lparr>generatedDocs = Map.empty, savedDocuments = []\<rparr> =
   (\<lparr>generatedDocs = Map.empty, savedDocuments = []\<rparr>, ErrorEvent InsufficientDataError) \<and>
   apiGenerate
     \<lparr>sessionId = ''s1'', storedAt = 1000, sweptAt = 1001,
      outcomes =
        \<lparr>extractionJson =
           Some [(''name'', JStr ''Jane Doe''), (''skills'', JArr [JStr ''Agile'', JStr ''SQL''] [])],
         jobAnalysisJson = None, tailoringJson = None, coverLetterJson = None\<rparr>,
      savedProfileQuery = Inl DatabaseError,
      insertsSucceed = False,
      renderCV = (\<lambda>c p r. Inr ''docx''), renderCoverLetter = (\<lambda>l c j r. Inr ''docx'')\<rparr>
     \<lparr>reqUserId = Some 7, reqProfile = None, reqCvTexts = None,
      reqJobData = Some \<lparr>rawText = Some ''Backend developer'', title = Some ''Developer'',
                         company = Some ''Acme'', location = Some ''Berlin''\<rparr>,
      reqGenerateCoverLetter = True\<rparr>
     \<lparr>generatedDocs = Map.empty, savedDocuments = []\<rparr> =
   (\<lparr>generatedDocs = Map.empty, savedDocuments = []\<rparr>, ErrorEvent DatabaseError) \<and>
   snd (apiGenerate
     \<lparr>sessionId = ''s1'', storedAt = 1000, sweptAt = 1001,
      outcomes =
        \<lparr>extractionJson =
           Some [(''name'', JStr ''Jane Doe''), (''skills'', JArr [JStr ''Agile'', JStr ''SQL''] [])],
         jobAnalysisJson = None, tailoringJson = None, coverLetterJson = None\<rparr>,
      savedProfileQuery =
        Inr (Some \<lparr>linkedin_profile_data = None, master_cv_text = Some (replicate 100 (CHR ''a'')),
                   master_cv_filename = None\<rparr>),
      insertsSucceed = False,
      renderCV = (\<lambda>c p r. Inr ''docx''), renderCoverLetter = (\<lambda>l c j r. Inr ''docx'')\<rparr>
     \<lparr>reqUserId = Some 7, reqProfile = None, reqCvTexts = None,
      reqJobData = Some \<lparr>rawText = Some ''Backend developer'', title = Some ''Developer'',
                         company = Some ''Acme'', location = Some ''Berlin''\<rparr>,
      reqGenerateCoverLetter = True\<rparr>
     \<lparr>generatedDocs = Map.empty, savedDocuments = []\<rparr>) = Complete ''s1'' \<and>
   savedDocuments (fst (apiGenerate
     \<lparr>sessionId = ''s1'', storedAt = 1000, sweptAt = 1001,
      outcomes =
        \<lparr>extractionJson =
           Some [(''name'', JStr ''Jane Doe''), (''skills'', JArr [JStr ''Agile'', JStr ''SQL''] [])],
         jobAnalysisJson = None, tailoringJson = None, coverLetterJson = None\<rparr>,
      savedProfileQuery =
        Inr (Some \<lparr>linkedin_profile_data = None, master_cv_text = Some (replicate 100 (CHR ''a'')),
                   master_cv_filename = None\<rparr>),
      insertsSucceed = False,
      renderCV = (\<lambda>c p r. Inr ''docx''), renderCoverLetter = (\<lambda>l c j r. Inr ''docx'')\<rparr>
     \<lparr>reqUserId = Some 7, reqProfile = None, reqCvTexts = None,
      reqJobData = Some \<lparr>rawText = Some ''Backend developer'', title = Some ''Developer'',
                         company = Some ''Acme'', location = Some ''Berlin''\<rparr>,
      reqGenerateCoverLetter = True\<rparr>
     \<lparr>generatedDocs = Map.empty, savedDocuments = []\<rparr>)) = []"
proof -
  let ?ed = "[(''name'', JStr ''Jane Doe''), (''skills'', JArr [JStr ''Agile'', JStr ''SQL''] [])]"
  let ?oc = "\<lparr>extractionJson = Some ?ed, jobAnalysisJson = None, tailoringJson = None,
              coverLetterJson = None\<rparr>"
  let ?shortRow = "\<lparr>linkedin_profile_data = None, master_cv_text = Some ''Jane Doe'',
                    master_cv_filename = None\<rparr>"
  let ?row = "\<lparr>linkedin_profile_data = None, master_cv_text = Some (replicate 100 (CHR ''a'')),
               master_cv_filename = None\<rparr>"
  let ?envShort = "\<lparr>sessionId = ''s1'', storedAt = 1000, sweptAt = 1001, outcomes = ?oc,
      savedProfileQuery = Inr (Some ?shortRow), insertsSucceed = False,
      renderCV = (\<lambda>c p r. Inr ''docx''), renderCoverLetter = (\<lambda>l c j r. Inr ''docx'')\<rparr>"
  let ?envDown = "\<lparr>sessionId = ''s1'', storedAt = 1000, sweptAt = 1001, outcomes = ?oc,
      savedProfileQuery = Inl DatabaseError, insertsSucceed = False,
      renderCV = (\<lambda>c p r. Inr ''docx''), renderCoverLetter = (\<lambda>l c j r. Inr ''docx'')\<rparr>"
  let ?env = "\<lparr>sessionId = ''s1'', storedAt = 1000, sweptAt = 1001, outcomes = ?oc,
      savedProfileQuery = Inr (Some ?row), insertsSucceed = False,
      renderCV = (\<lambda>c p r. Inr ''docx''), renderCoverLetter = (\<lambda>l c j r. Inr ''docx'')\<rparr>"
  let ?req = "\<lparr>reqUserId = Some 7, reqProfile = None, reqCvTexts = None,
      reqJobData = Some \<lparr>rawText = Some ''Backend developer'', title = Some ''Developer'',
                         company = Some ''Acme'', location = Some ''Berlin''\<rparr>,
      reqGenerateCoverLetter = True\<rparr>"
  let ?st = "\<lparr>generatedDocs = Map.empty, savedDocuments = []\<rparr>"
  let ?cvsShort = "[\<lparr>cv_filename = ''Master CV'', cv_text = ''Jane Doe''\<rparr>]"
  let ?cvs = "[\<lparr>cv_filename = ''Master CV'', cv_text = replicate 100 (CHR ''a'')\<rparr>]"
  have ms: "mergeSavedProfile ?envShort ?req = Inr (None, Some ?cvsShort)"
    by (simp add: mergeSavedProfile_def strOr_def)
  have m: "mergeSavedProfile ?env ?req = Inr (None, Some ?cvs)"
    by (simp add: mergeSavedProfile_def strOr_def)
  have short: "insufficientData (userProvidedData None ?cvsShort)"
    by code_simp
  have x: "extractFacts ?oc None ?cvs = (1, Inr ?ed)"
    by code_simp
  have w: "wellTypedProfile ?ed"
    by code_simp
  have a: "apiGenerate ?envShort ?req ?st = (?st, ErrorEvent InsufficientDataError)"
    using failure_propagation
            [where req = ?req and env = ?envShort and st = ?st and prof = None
               and cvTexts = ?cvsShort]
          ms short
    by simp
  have q: "apiGenerate ?envDown ?req ?st = (?st, ErrorEvent DatabaseError)"
    using failure_propagation
            [where req = ?req and env = ?envDown and st = ?st and e = DatabaseError]
    by simp
  have b: "snd (apiGenerate ?env ?req ?st) = Complete ''s1'' \<and>
           savedDocuments (fst (apiGenerate ?env ?req ?st)) = []"
    using failure_propagation
            [where req = ?req and env = ?env and st = ?st and extracted = ?ed
               and prof = None and cvTexts = ?cvs]
          m x w
    by simp
  from a q b show ?thesis by simp
qed

text \<open>
  The claim as stated fails: an extraction response that does not parse ends the request
  with an error event as well, and that error is neither of the two the claim names.
\<close>

theorem failure_propagation_counterexample:
  "apiGenerate
     \<lparr>sessionId = ''s1'', storedAt = 1000, sweptAt = 1001,
      outcomes = \<lparr>extractionJson = None, jobAnalysisJson = None, tailoringJson = None,
                  coverLetterJson = None\<rparr>,
      savedProfileQuery = Inr None, insertsSucceed = True,
      renderCV = (\<lambda>c p r. Inr ''docx''), renderCoverLetter = (\<lambda>l c j r. Inr ''docx'')\<rparr>
     \<lparr>reqUserId = None, reqProfile = None,
      reqCvTexts = Some [\<lparr>cv_filename = ''cv.docx'', cv_text = replicate 100 (CHR ''a'')\<rparr>],
      reqJobData = None, reqGenerateCoverLetter = True\<rparr>
     \<lparr>generatedDocs = Map.empty, savedDocuments = []\<rparr> =
   (\<lparr>generatedDocs = Map.empty, savedDocuments = []\<rparr>, ErrorEvent ExtractionParseError) \<and>
   ExtractionParseError \<noteq> InsufficientDataError \<and> ExtractionParseError \<noteq> NameMissingError"
proof -
  have "generateCVWithClaude
          \<lparr>extractionJson = None, jobAnalysisJson = None, tailoringJson = None,
           coverLetterJson = None\<rparr>
          None [\<lparr>cv_filename = ''cv.docx'', cv_text = replicate 100 (CHR ''a'')\<rparr>] =
        (1, Inl ExtractionParseError)"
    by code_simp
  then show ?thesis by (simp add: apiGenerate_def mergeSavedProfile_def)
qed

end
